theory Spec2Isabelle
  imports Main "HOL-Library.Sublist" "HOL-Library.AList"
begin

section \<open>Python values\<close>

text \<open>
  Tool-call arguments, handler results and the date extraction are untyped Python data
  (\<^verbatim>\<open>Dict[str, Any]\<close>, the output of \<^verbatim>\<open>json.loads\<close>).  They are modelled by the
  values below; a dictionary is an association list in insertion order whose keys are
  distinct.  Floating-point numbers are not part of the model.  A string is a list of
  characters; \<^verbatim>\<open>needle in haystack\<close> on strings is \<^const>\<open>sublist\<close>.
\<close>

datatype pyval =
    PNone
  | PBool bool
  | PInt int
  | PStr string
  | PList "pyval list"
  | PDict "(string \<times> pyval) list"

text \<open>Python truthiness (\<^verbatim>\<open>bool(v)\<close>, \<^verbatim>\<open>if v\<close>, \<^verbatim>\<open>not v\<close>).\<close>

fun truthy :: "pyval \<Rightarrow> bool" where
  "truthy PNone = False"
| "truthy (PBool b) = b"
| "truthy (PInt i) = (i \<noteq> 0)"
| "truthy (PStr s) = (s \<noteq> [])"
| "truthy (PList xs) = (xs \<noteq> [])"
| "truthy (PDict d) = (d \<noteq> [])"

text \<open>\<^verbatim>\<open>d.get(k)\<close> and \<^verbatim>\<open>d.get(k, default)\<close> on a dictionary.\<close>

definition dict_get_default :: "(string \<times> pyval) list \<Rightarrow> string \<Rightarrow> pyval \<Rightarrow> pyval" where
  "dict_get_default d k dflt = (case map_of d k of None \<Rightarrow> dflt | Some v \<Rightarrow> v)"

definition dict_get :: "(string \<times> pyval) list \<Rightarrow> string \<Rightarrow> pyval" where
  "dict_get d k = dict_get_default d k PNone"

text \<open>
  Exceptions.  The first four are the application's classes of
  \<^verbatim>\<open>app/exceptions/base.py\<close> that the modelled code raises or catches by name; each
  carries its message.  \<open>BuiltinError\<close> stands for the exceptions of Python itself and of
  its libraries (TypeError, ValueError, AttributeError, ...); its payload stands for the
  message text.  All of them are subclasses of \<^verbatim>\<open>Exception\<close>.
\<close>

datatype exn =
    ValidationError string
  | OpenAIAPIError string
  | CalComAPIError string
  | AppException string
  | BuiltinError string

fun str_exn :: "exn \<Rightarrow> string" where
  "str_exn (ValidationError m) = m"
| "str_exn (OpenAIAPIError m) = m"
| "str_exn (CalComAPIError m) = m"
| "str_exn (AppException m) = m"
| "str_exn (BuiltinError m) = m"

section \<open>Chat models (\<^verbatim>\<open>app/models/chat.py\<close>)\<close>

datatype ChatRole = SYSTEM | USER | ASSISTANT | FUNCTION

text \<open>
  \<^verbatim>\<open>ChatMessage\<close>.  Its fourth field \<^verbatim>\<open>function_call\<close> is never set by the modelled code
  and is left out.
\<close>

record ChatMessage =
  msg_role :: ChatRole
  msg_content :: string
  msg_name :: "string option"

text \<open>\<^verbatim>\<open>ChatHistory\<close>: the list \<^verbatim>\<open>messages\<close>, with \<^verbatim>\<open>add_message\<close> appending at the end.\<close>

type_synonym ChatHistory = "ChatMessage list"

definition add_message :: "ChatHistory \<Rightarrow> ChatMessage \<Rightarrow> ChatHistory" where
  "add_message history m = history @ [m]"

text \<open>A function call as \<^verbatim>\<open>parse_response\<close> builds it: \<^verbatim>\<open>{"name": ..., "arguments": ...}\<close>.\<close>

record function_call =
  fc_name :: string
  fc_arguments :: pyval

text \<open>\<^verbatim>\<open>ChatResponse\<close> of the service (\<^verbatim>\<open>app/models/chat.py\<close>).\<close>

record ServiceResponse =
  sr_message :: ChatMessage
  sr_function_calls :: "function_call list option"
  sr_function_results :: "(string \<times> pyval) list option"

section \<open>Session store (\<^verbatim>\<open>ChatService._get_or_create_session\<close>)\<close>

text \<open>
  The state of a \<^verbatim>\<open>ChatService\<close>: the system prompt computed by the constructor and the
  dictionary \<^verbatim>\<open>sessions\<close>.  The history returned by \<^verbatim>\<open>_get_or_create_session\<close> is the
  object stored in the dictionary, so every later \<^verbatim>\<open>add_message\<close> on it is an update of
  the store at that identifier.
\<close>

record ChatService =
  system_prompt :: string
  sessions :: "string \<rightharpoonup> ChatHistory"

definition new_service :: "string \<Rightarrow> ChatService" where
  "new_service prompt = \<lparr>system_prompt = prompt, sessions = Map.empty\<rparr>"

text \<open>
  \<open>fresh\<close> is the string \<^verbatim>\<open>str(uuid.uuid4())\<close> would produce in this call.
  \<^verbatim>\<open>not session_id\<close> holds for \<^verbatim>\<open>None\<close> and for the empty string.
\<close>

definition get_or_create_session ::
  "string \<Rightarrow> ChatService \<Rightarrow> string option \<Rightarrow> string \<times> ChatService" where
  "get_or_create_session fresh svc session_id =
     (let sid = (case session_id of
                   None \<Rightarrow> fresh
                 | Some s \<Rightarrow> if s = [] then fresh else s)
      in if sessions svc sid = None
         then (sid, svc\<lparr>sessions := (sessions svc)(sid \<mapsto>
                 add_message []
                   \<lparr>msg_role = SYSTEM, msg_content = system_prompt svc, msg_name = None\<rparr>)\<rparr>)
         else (sid, svc))"

text \<open>\<^verbatim>\<open>history.add_message(m)\<close> on the history of session \<open>sid\<close>.\<close>

definition session_add :: "ChatService \<Rightarrow> string \<Rightarrow> ChatMessage \<Rightarrow> ChatService" where
  "session_add svc sid m =
     (case sessions svc sid of
        None \<Rightarrow> svc
      | Some history \<Rightarrow> svc\<lparr>sessions := (sessions svc)(sid \<mapsto> add_message history m)\<rparr>)"

section \<open>Function dispatch (\<^verbatim>\<open>ChatService._process_function_calls\<close>)\<close>

text \<open>
  The six handler methods, each from the arguments to a result or a raised exception.
  The dispatch loop is modelled for any six handlers; the handlers that the claims are
  about are modelled further down.
\<close>

record handlers =
  h_get_event_types :: "pyval \<Rightarrow> exn + pyval"
  h_get_available_slots :: "pyval \<Rightarrow> exn + pyval"
  h_book_event :: "pyval \<Rightarrow> exn + pyval"
  h_list_events :: "pyval \<Rightarrow> exn + pyval"
  h_cancel_event :: "pyval \<Rightarrow> exn + pyval"
  h_reschedule_event :: "pyval \<Rightarrow> exn + pyval"

definition known_functions :: "string list" where
  "known_functions = [''get_event_types'', ''get_available_slots'', ''book_event'',
     ''list_events'', ''cancel_event'', ''reschedule_event'']"

text \<open>The \<^verbatim>\<open>if\<close>/\<^verbatim>\<open>elif\<close> chain inside the \<^verbatim>\<open>try\<close> of the loop body.\<close>

definition call_handler :: "handlers \<Rightarrow> string \<Rightarrow> pyval \<Rightarrow> exn + pyval" where
  "call_handler hs name args =
     (if name = ''get_event_types'' then h_get_event_types hs args
      else if name = ''get_available_slots'' then h_get_available_slots hs args
      else if name = ''book_event'' then h_book_event hs args
      else if name = ''list_events'' then h_list_events hs args
      else if name = ''cancel_event'' then h_cancel_event hs args
      else if name = ''reschedule_event'' then h_reschedule_event hs args
      else Inl (ValidationError (''Unknown function: '' @ name)))"

text \<open>
  The loop over the function calls, with the history and the dictionary \<^verbatim>\<open>results\<close> as
  accumulators.  \<open>repr\<close> is Python's \<^verbatim>\<open>str\<close> on a result.  \<^verbatim>\<open>results[name] = v\<close> is
  \<^const>\<open>AList.update\<close>: an existing key keeps its place and gets the new value.
\<close>

fun process_function_calls_loop ::
  "(pyval \<Rightarrow> string) \<Rightarrow> handlers \<Rightarrow> function_call list \<Rightarrow> ChatHistory \<Rightarrow>
     (string \<times> pyval) list \<Rightarrow> ChatHistory \<times> (string \<times> pyval) list" where
  "process_function_calls_loop repr hs [] history results = (history, results)"
| "process_function_calls_loop repr hs (fc # fcs) history results =
     (case call_handler hs (fc_name fc) (fc_arguments fc) of
        Inr result \<Rightarrow>
          process_function_calls_loop repr hs fcs
            (add_message history
               \<lparr>msg_role = FUNCTION, msg_content = repr result, msg_name = Some (fc_name fc)\<rparr>)
            (AList.update (fc_name fc) result results)
      | Inl e \<Rightarrow>
          process_function_calls_loop repr hs fcs
            (add_message history
               \<lparr>msg_role = FUNCTION, msg_content = ''Error: '' @ str_exn e,
                msg_name = Some (fc_name fc)\<rparr>)
            (AList.update (fc_name fc) (PDict [(''error'', PStr (str_exn e))]) results))"

definition process_function_calls ::
  "(pyval \<Rightarrow> string) \<Rightarrow> handlers \<Rightarrow> function_call list \<Rightarrow> ChatHistory \<Rightarrow>
     ChatHistory \<times> (string \<times> pyval) list" where
  "process_function_calls repr hs function_calls history =
     process_function_calls_loop repr hs function_calls history []"

section \<open>Completion provider (\<^verbatim>\<open>app/services/openai.py\<close>)\<close>

text \<open>
  What the OpenAI client returns: \<^verbatim>\<open>response.choices[i].message\<close> with its content and its
  tool calls, the arguments of a tool call being JSON text.
\<close>

record tool_call =
  tc_type :: string
  tc_function_name :: string
  tc_function_arguments :: string

record completion_message =
  cm_content :: "string option"
  cm_tool_calls :: "tool_call list option"

type_synonym ChatCompletion = "completion_message list"

text \<open>
  The library and the outside world, as far as the modelled code calls them.
  \<^item> \<open>uuid4\<close>: the string \<^verbatim>\<open>str(uuid.uuid4())\<close> of this request;
  \<^item> \<open>py_repr\<close>: \<^verbatim>\<open>str(v)\<close> on a value that is not a string;
  \<^item> \<open>py_eval\<close>: \<^verbatim>\<open>eval\<close> on a text, \<open>Inl\<close> the exception it raises;
  \<^item> \<open>json_loads\<close>: \<^verbatim>\<open>json.loads\<close>, \<open>Inl\<close> the text of the exception it raises;
  \<^item> \<open>create_completion\<close>: \<^verbatim>\<open>client.chat.completions.create\<close> on the messages and the
    names of the functions offered, \<open>Inl\<close> the text of the exception it raises (the sampling
    temperature is a floating-point number and is left out).
\<close>

record pylib =
  uuid4 :: string
  py_repr :: "pyval \<Rightarrow> string"
  py_eval :: "string \<Rightarrow> exn + pyval"
  json_loads :: "string \<Rightarrow> string + pyval"
  create_completion :: "ChatMessage list \<Rightarrow> string list \<Rightarrow> string + ChatCompletion"

text \<open>\<^verbatim>\<open>str(v)\<close> and \<^verbatim>\<open>f"{v}"\<close>: a string is rendered as itself.\<close>

definition py_str :: "pylib \<Rightarrow> pyval \<Rightarrow> string" where
  "py_str lib v = (case v of PStr s \<Rightarrow> s | _ \<Rightarrow> py_repr lib v)"

text \<open>
  What a caller passes as a function definition: a \<^verbatim>\<open>ChatFunction\<close> object, as
  \<^verbatim>\<open>_get_cal_functions\<close> builds them, or a plain dictionary, as \<^verbatim>\<open>parse_date_with_llm\<close>
  builds one.  Each is given by its name.
\<close>

datatype function_spec = ChatFunction string | FunctionDict string

text \<open>
  Lines 50--58 of \<^verbatim>\<open>chat_completion\<close>: the comprehension reads \<^verbatim>\<open>function.name\<close> of every
  function, which raises AttributeError on a dictionary.
\<close>

fun function_names :: "function_spec list \<Rightarrow> string + string list" where
  "function_names [] = Inr []"
| "function_names (ChatFunction name # functions) =
     (case function_names functions of
        Inl err \<Rightarrow> Inl err
      | Inr names \<Rightarrow> Inr (name # names))"
| "function_names (FunctionDict name # functions) =
     Inl ''dict object has no attribute name''"

text \<open>\<^verbatim>\<open>OpenAIService.chat_completion\<close>: every exception becomes an \<^verbatim>\<open>OpenAIAPIError\<close>.\<close>

definition chat_completion ::
  "pylib \<Rightarrow> ChatMessage list \<Rightarrow> function_spec list \<Rightarrow> exn + ChatCompletion" where
  "chat_completion lib messages functions =
     (case function_names functions of
        Inl err \<Rightarrow> Inl (OpenAIAPIError (''OpenAI API error: '' @ err))
      | Inr names \<Rightarrow>
          (case create_completion lib messages names of
             Inl err \<Rightarrow> Inl (OpenAIAPIError (''OpenAI API error: '' @ err))
           | Inr response \<Rightarrow> Inr response))"

text \<open>The loop of \<^verbatim>\<open>parse_response\<close> over the tool calls; \<open>Inl\<close> is the first exception.\<close>

fun collect_function_calls ::
  "pylib \<Rightarrow> tool_call list \<Rightarrow> string + function_call list" where
  "collect_function_calls lib [] = Inr []"
| "collect_function_calls lib (tc # tcs) =
     (if tc_type tc = ''function''
      then (case json_loads lib (tc_function_arguments tc) of
              Inl err \<Rightarrow> Inl err
            | Inr args \<Rightarrow>
                (case collect_function_calls lib tcs of
                   Inl err \<Rightarrow> Inl err
                 | Inr fcs \<Rightarrow>
                     Inr (\<lparr>fc_name = tc_function_name tc, fc_arguments = args\<rparr> # fcs)))
      else collect_function_calls lib tcs)"

text \<open>
  \<^verbatim>\<open>OpenAIService.parse_response\<close>: the assistant message (\<^verbatim>\<open>message.content or ""\<close>) and the
  function calls, \<^verbatim>\<open>None\<close> when there is none.  \<^verbatim>\<open>response.choices[0]\<close> on an empty list
  raises IndexError.
\<close>

definition parse_response ::
  "pylib \<Rightarrow> ChatCompletion \<Rightarrow> exn + ChatMessage \<times> function_call list option" where
  "parse_response lib response =
     (case response of
        [] \<Rightarrow> Inl (OpenAIAPIError (''Error parsing OpenAI response: list index out of range''))
      | message # _ \<Rightarrow>
          (case collect_function_calls lib
                  (case cm_tool_calls message of None \<Rightarrow> [] | Some tcs \<Rightarrow> tcs) of
             Inl err \<Rightarrow> Inl (OpenAIAPIError (''Error parsing OpenAI response: '' @ err))
           | Inr function_calls \<Rightarrow>
               Inr (\<lparr>msg_role = ASSISTANT,
                     msg_content = (case cm_content message of None \<Rightarrow> [] | Some c \<Rightarrow> c),
                     msg_name = None\<rparr>,
                    if function_calls = [] then None else Some function_calls)))"

section \<open>Processing a message (\<^verbatim>\<open>ChatService.process_message\<close>)\<close>

definition session_history :: "ChatService \<Rightarrow> string \<Rightarrow> ChatHistory" where
  "session_history svc sid = (case sessions svc sid of None \<Rightarrow> [] | Some history \<Rightarrow> history)"

text \<open>The six \<^verbatim>\<open>ChatFunction\<close> objects of \<^verbatim>\<open>_get_cal_functions\<close>, in its order.\<close>

definition get_cal_functions :: "function_spec list" where
  "get_cal_functions = map ChatFunction [''get_event_types'', ''get_available_slots'',
     ''book_event'', ''list_events'', ''cancel_event'', ''reschedule_event'']"

text \<open>
  The service after the call comes first in the result: the user turn stays in the store
  also when the completion provider raises.
\<close>

definition process_message ::
  "pylib \<Rightarrow> handlers \<Rightarrow> ChatService \<Rightarrow> string \<Rightarrow> string option \<Rightarrow> string option \<Rightarrow>
     ChatService \<times> (exn + ServiceResponse)" where
  "process_message lib hs svc message user_id session_id =
     (let (sid, svc1) = get_or_create_session (uuid4 lib) svc session_id;
          svc2 = session_add svc1 sid
                   \<lparr>msg_role = USER, msg_content = message, msg_name = None\<rparr>
      in case chat_completion lib (session_history svc2 sid) get_cal_functions of
           Inl e \<Rightarrow> (svc2, Inl e)
         | Inr completion \<Rightarrow>
             (case parse_response lib completion of
                Inl e \<Rightarrow> (svc2, Inl e)
              | Inr (assistant, function_calls) \<Rightarrow>
                  let svc3 = session_add svc2 sid assistant
                  in (case function_calls of
                        None \<Rightarrow>
                          (svc3, Inr \<lparr>sr_message = assistant, sr_function_calls = None,
                                      sr_function_results = None\<rparr>)
                      | Some calls \<Rightarrow>
                          if calls = []
                          then (svc3, Inr \<lparr>sr_message = assistant,
                                           sr_function_calls = Some calls,
                                           sr_function_results = None\<rparr>)
                          else
                            let (history, results) =
                                  process_function_calls (py_str lib) hs calls
                                    (session_history svc3 sid)
                            in (svc3\<lparr>sessions := (sessions svc3)(sid \<mapsto> history)\<rparr>,
                                Inr \<lparr>sr_message = assistant,
                                     sr_function_calls = Some calls,
                                     sr_function_results = Some results\<rparr>))))"

section \<open>Dates and times\<close>

text \<open>
  A \<^verbatim>\<open>datetime\<close>: the proleptic Gregorian ordinal of its date (\<^verbatim>\<open>toordinal()\<close>, day 1 is
  Monday 0001-01-01), its time of day, and its UTC offset in minutes (\<open>None\<close> for a naive
  value).  The last date is 9999-12-31, day 3652059.
\<close>

record pydatetime =
  dt_ordinal :: int
  dt_hour :: nat
  dt_minute :: nat
  dt_second :: nat
  dt_microsecond :: nat
  dt_utcoffset :: "int option"

text \<open>
  \<^verbatim>\<open>d + timedelta(days=n)\<close> (and \<^verbatim>\<open>d - timedelta(days=n)\<close> with \<open>- n\<close>) as a sum of
  ordinals.  It is used as it is on \<^verbatim>\<open>datetime.now()\<close>, which is days away from both ends
  of the range of dates.
\<close>

definition plus_days :: "pydatetime \<Rightarrow> int \<Rightarrow> pydatetime" where
  "plus_days d n = d\<lparr>dt_ordinal := dt_ordinal d + n\<rparr>"

text \<open>
  The same sum on a date read from the arguments of a call: Python raises OverflowError
  when the result is outside the range of dates.
\<close>

definition max_ordinal :: int where
  "max_ordinal = 3652059"

definition add_days :: "pydatetime \<Rightarrow> int \<Rightarrow> exn + pydatetime" where
  "add_days d n =
     (if 1 \<le> dt_ordinal d + n \<and> dt_ordinal d + n \<le> max_ordinal
      then Inr (plus_days d n)
      else Inl (BuiltinError ''date value out of range''))"

text \<open>\<^verbatim>\<open>d.weekday()\<close>: Monday is 0, Sunday is 6.\<close>

definition weekday :: "pydatetime \<Rightarrow> int" where
  "weekday d = (dt_ordinal d + 6) mod 7"

text \<open>\<^verbatim>\<open>d.replace(hour=h, minute=m, second=s)\<close>.\<close>

definition replace_hms :: "pydatetime \<Rightarrow> nat \<Rightarrow> nat \<Rightarrow> nat \<Rightarrow> pydatetime" where
  "replace_hms d h m s = d\<lparr>dt_hour := h, dt_minute := m, dt_second := s\<rparr>"

definition microseconds :: "pydatetime \<Rightarrow> int" where
  "microseconds d =
     (((dt_ordinal d * 24 + int (dt_hour d)) * 60 + int (dt_minute d)
        - (case dt_utcoffset d of None \<Rightarrow> 0 | Some off \<Rightarrow> off)) * 60
       + int (dt_second d)) * 1000000 + int (dt_microsecond d)"

text \<open>
  \<^verbatim>\<open>int((end_time - start_time).total_seconds() / 60)\<close>: subtracting a naive and an aware value
  raises TypeError; \<^verbatim>\<open>int\<close> truncates towards zero.  The quotient is taken exactly, where
  the source goes through a floating-point number.
\<close>

definition duration_minutes :: "pydatetime \<Rightarrow> pydatetime \<Rightarrow> exn + int" where
  "duration_minutes start_time end_time =
     (if (dt_utcoffset start_time = None) \<noteq> (dt_utcoffset end_time = None)
      then Inl (BuiltinError ''can't subtract offset-naive and offset-aware datetimes'')
      else let us = microseconds end_time - microseconds start_time
           in Inr (sgn us * (\<bar>us\<bar> div 60000000)))"

text \<open>
  The date and time functions of the library:
  \<^item> \<open>now\<close>: \<^verbatim>\<open>datetime.now()\<close> of this call;
  \<^item> \<open>strptime_ymd\<close>: \<^verbatim>\<open>datetime.strptime(s, "%Y-%m-%d")\<close>, the ordinal of the date (the time
    of the result is midnight), \<open>Inl\<close> the text of the ValueError;
  \<^item> \<open>fromisoformat\<close>: \<^verbatim>\<open>datetime.fromisoformat\<close>, \<open>Inl\<close> the text of the ValueError;
  \<^item> \<open>isoformat\<close>, \<open>strftime_ymd\<close>: \<^verbatim>\<open>d.isoformat()\<close> and \<^verbatim>\<open>d.strftime("%Y-%m-%d")\<close>.
\<close>

record pytime =
  now :: pydatetime
  strptime_ymd :: "string \<Rightarrow> string + int"
  fromisoformat :: "string \<Rightarrow> string + pydatetime"
  isoformat :: "pydatetime \<Rightarrow> string"
  strftime_ymd :: "pydatetime \<Rightarrow> string"

definition midnight :: "int \<Rightarrow> pydatetime" where
  "midnight ord = \<lparr>dt_ordinal = ord, dt_hour = 0, dt_minute = 0, dt_second = 0,
     dt_microsecond = 0, dt_utcoffset = None\<rparr>"

text \<open>\<^verbatim>\<open>datetime.fromisoformat(v)\<close> on an untyped value: TypeError unless it is a string.\<close>

definition fromisoformat_val :: "pytime \<Rightarrow> pyval \<Rightarrow> exn + pydatetime" where
  "fromisoformat_val tm v =
     (case v of
        PStr s \<Rightarrow> (case fromisoformat tm s of
                     Inl err \<Rightarrow> Inl (BuiltinError err)
                   | Inr d \<Rightarrow> Inr d)
      | _ \<Rightarrow> Inl (BuiltinError ''fromisoformat: argument must be str''))"

section \<open>Calendar provider (\<^verbatim>\<open>app/models/calcom.py\<close>, \<^verbatim>\<open>CalComService\<close>)\<close>

record EventType =
  et_id :: int
  et_slug :: string
  et_title :: string
  et_description :: "string option"
  et_length :: int
  et_hidden :: bool

record AvailableSlot =
  slot_start :: pydatetime
  slot_end :: pydatetime

record Attendee =
  att_email :: string
  att_name :: string
  att_timezone :: "string option"

record Booking =
  bk_id :: int
  bk_uid :: string
  bk_title :: string
  bk_description :: "string option"
  bk_start_time :: pydatetime
  bk_end_time :: pydatetime
  bk_status :: string
  bk_attendees :: "Attendee list"
  bk_event_type_id :: int

text \<open>The keyword arguments of \<^verbatim>\<open>CalComService.book_event\<close>.\<close>

record book_request =
  br_event_type_id :: pyval
  br_start_time :: pydatetime
  br_end_time :: pydatetime
  br_name :: pyval
  br_email :: pyval
  br_title :: pyval
  br_description :: pyval
  br_timezone :: pyval
  br_language :: pyval

text \<open>
  The methods of \<^verbatim>\<open>CalComService\<close> that the chat service and the router call, as the
  provider answers them during one request: \<^verbatim>\<open>get_event_types()\<close>,
  \<^verbatim>\<open>get_available_slots(event_type_id, start_date, end_date, timezone)\<close>,
  \<^verbatim>\<open>book_event(...)\<close>, \<^verbatim>\<open>get_bookings(email, start_date, end_date, status)\<close>,
  \<^verbatim>\<open>cancel_booking(booking_id, reason)\<close> and
  \<^verbatim>\<open>reschedule_booking(booking_id, start_time, end_time, reason)\<close>.
  \<open>Inl\<close> is the exception the method raises.
\<close>

record calcom =
  cal_get_event_types :: "exn + EventType list"
  cal_get_available_slots ::
    "pyval \<Rightarrow> pydatetime \<Rightarrow> pydatetime \<Rightarrow> pyval \<Rightarrow> exn + AvailableSlot list"
  cal_book_event :: "book_request \<Rightarrow> exn + Booking"
  cal_get_bookings :: "pyval \<Rightarrow> pydatetime \<Rightarrow> pydatetime \<Rightarrow> pyval \<Rightarrow> exn + Booking list"
  cal_cancel_booking :: "pyval \<Rightarrow> pyval \<Rightarrow> exn + pyval"
  cal_reschedule_booking ::
    "pyval \<Rightarrow> pydatetime \<Rightarrow> pydatetime \<Rightarrow> pyval \<Rightarrow> exn + Booking"

section \<open>Handlers (\<^verbatim>\<open>app/services/chat.py\<close>)\<close>

text \<open>\<^verbatim>\<open>n == v\<close> for an integer \<open>n\<close> and an untyped value (\<^verbatim>\<open>True == 1\<close>, \<^verbatim>\<open>False == 0\<close>).\<close>

definition int_eq :: "int \<Rightarrow> pyval \<Rightarrow> bool" where
  "int_eq n v = (case v of PInt i \<Rightarrow> n = i | PBool b \<Rightarrow> n = (if b then 1 else 0) | _ \<Rightarrow> False)"

text \<open>The integer that \<^verbatim>\<open>n - v\<close> subtracts; \<open>None\<close> when the subtraction raises TypeError.\<close>

definition as_int :: "pyval \<Rightarrow> int option" where
  "as_int v = (case v of PInt i \<Rightarrow> Some i | PBool b \<Rightarrow> Some (if b then 1 else 0) | _ \<Rightarrow> None)"

text \<open>
  Lines 368--375 of \<^verbatim>\<open>_get_available_slots\<close> and 476--483 of \<^verbatim>\<open>_book_event\<close>, which are the
  same code: the first event type whose length equals the duration; failing that, the
  list is sorted by \<^verbatim>\<open>abs(et.length - duration)\<close> (Python's sort is stable, as
  \<^const>\<open>sort_key\<close> is) and its first element is taken.
\<close>

definition select_event_type :: "EventType list \<Rightarrow> pyval \<Rightarrow> exn + EventType" where
  "select_event_type event_types duration =
     (case find (\<lambda>et. int_eq (et_length et) duration) event_types of
        Some matching_event_type \<Rightarrow> Inr matching_event_type
      | None \<Rightarrow>
          if event_types = [] then Inl (BuiltinError ''list index out of range'')
          else (case as_int duration of
                  None \<Rightarrow> Inl (BuiltinError ''unsupported operand type(s) for -'')
                | Some d \<Rightarrow>
                    (case sort_key (\<lambda>et. \<bar>et_length et - d\<bar>) event_types of
                       [] \<Rightarrow> Inl (BuiltinError ''list index out of range'')
                     | et # _ \<Rightarrow> Inr et)))"

text \<open>Lines 364--377 and 472--485: the identifier of the event type chosen by default.\<close>

definition default_event_type_id :: "calcom \<Rightarrow> pyval \<Rightarrow> exn + pyval" where
  "default_event_type_id cal duration =
     (case cal_get_event_types cal of
        Inl e \<Rightarrow> Inl e
      | Inr event_types \<Rightarrow>
          if event_types = [] then Inl (ValidationError ''No event types available'')
          else (case select_event_type event_types duration of
                  Inl e \<Rightarrow> Inl e
                | Inr matching_event_type \<Rightarrow> Inr (PInt (et_id matching_event_type))))"

text \<open>\<^verbatim>\<open>except Exception as e: raise AppException(f"<text>{str(e)}")\<close>.\<close>

definition reraise_app :: "string \<Rightarrow> exn + 'a \<Rightarrow> exn + 'a" where
  "reraise_app text r =
     (case r of Inl e \<Rightarrow> Inl (AppException (text @ str_exn e)) | Inr v \<Rightarrow> Inr v)"

definition slot_json :: "pytime \<Rightarrow> AvailableSlot \<Rightarrow> pyval" where
  "slot_json tm slot =
     PDict [(''start'', PStr (isoformat tm (slot_start slot))),
            (''end'', PStr (isoformat tm (slot_end slot))),
            (''date'', PStr (strftime_ymd tm (slot_start slot)))]"

definition event_type_name :: "pylib \<Rightarrow> EventType list \<Rightarrow> pyval \<Rightarrow> string" where
  "event_type_name lib event_types event_type_id =
     (case find (\<lambda>et. int_eq (et_id et) event_type_id) event_types of
        Some event_type \<Rightarrow> et_title event_type
      | None \<Rightarrow> ''Event Type '' @ py_str lib event_type_id)"

text \<open>The body of the \<^verbatim>\<open>try\<close> of \<^verbatim>\<open>_get_available_slots\<close> (lines 381--443).\<close>

definition get_available_slots_body ::
  "pylib \<Rightarrow> pytime \<Rightarrow> calcom \<Rightarrow> pyval \<Rightarrow> pyval \<Rightarrow> pyval \<Rightarrow> exn + pyval" where
  "get_available_slots_body lib tm cal date_str event_type_id timezone =
     (case date_str of
        PStr s \<Rightarrow>
          (case strptime_ymd tm s of
             Inl err \<Rightarrow> Inl (BuiltinError err)
           | Inr ord \<Rightarrow>
               let date = midnight ord;
                   start_date = date
               in (case add_days date 7 of
                     Inl e \<Rightarrow> Inl e
                   | Inr end_date \<Rightarrow>
                       (case cal_get_available_slots cal event_type_id start_date end_date
                               timezone of
                          Inl e \<Rightarrow> Inl e
                        | Inr slots \<Rightarrow>
                            if slots = []
                            then
                              (case add_days date 1 of
                                 Inl e \<Rightarrow> Inl e
                               | Inr alternative_start \<Rightarrow>
                                   (case add_days alternative_start 14 of
                                      Inl e \<Rightarrow> Inl e
                                    | Inr alternative_end \<Rightarrow>
                                        (case cal_get_available_slots cal event_type_id
                                                alternative_start alternative_end
                                                (PStr ''America/Los_Angeles'') of
                                           Inl e \<Rightarrow> Inl e
                                         | Inr alternative_slots \<Rightarrow>
                                             (case cal_get_event_types cal of
                                                Inl e \<Rightarrow> Inl e
                                              | Inr event_types \<Rightarrow>
                                                  let name = event_type_name lib event_types
                                                               event_type_id
                                                  in Inr (PDict
                                                    [(''slots'', PList []),
                                                     (''message'',
                                                        PStr (''No available slots found for ''
                                                          @ name @ '' on '' @ s @ ''.'')),
                                                     (''alternative_slots'',
                                                        PList (map (slot_json tm)
                                                                 (take 10 alternative_slots))),
                                                     (''event_type_id'', event_type_id),
                                                     (''event_type_name'', PStr name)])))))
                            else
                              (case cal_get_event_types cal of
                                 Inl e \<Rightarrow> Inl e
                               | Inr event_types \<Rightarrow>
                                   Inr (PDict
                                     [(''slots'', PList (map (slot_json tm) slots)),
                                      (''event_type_id'', event_type_id),
                                      (''event_type_name'',
                                         PStr (event_type_name lib event_types
                                                 event_type_id))])))))
      | _ \<Rightarrow> Inl (BuiltinError ''strptime() argument 1 must be str''))"

text \<open>
  \<^verbatim>\<open>ChatService._get_available_slots\<close>.  \<^verbatim>\<open>args.get\<close> on a value that is not a dictionary
  raises AttributeError.
\<close>

definition get_available_slots_handler ::
  "pylib \<Rightarrow> pytime \<Rightarrow> calcom \<Rightarrow> pyval \<Rightarrow> exn + pyval" where
  "get_available_slots_handler lib tm cal args =
     (case args of
        PDict a \<Rightarrow>
          let date_str = dict_get a ''date'';
              event_type_id = dict_get a ''event_type_id'';
              duration = dict_get_default a ''duration'' (PInt 30);
              timezone = dict_get_default a ''timezone'' (PStr ''America/Los_Angeles'')
          in if \<not> truthy date_str then Inl (ValidationError ''Date is required'')
             else (case (if \<not> truthy event_type_id
                         then default_event_type_id cal duration
                         else Inr event_type_id) of
                     Inl e \<Rightarrow> Inl e
                   | Inr event_type_id' \<Rightarrow>
                       reraise_app ''Error getting available slots: ''
                         (get_available_slots_body lib tm cal date_str event_type_id' timezone))
      | _ \<Rightarrow> Inl (BuiltinError ''object has no attribute 'get' ''))"

text \<open>The result dictionary of \<^verbatim>\<open>_book_event\<close> (lines 519--532).\<close>

definition attendee_json :: "Attendee \<Rightarrow> pyval" where
  "attendee_json attendee =
     PDict [(''email'', PStr (att_email attendee)), (''name'', PStr (att_name attendee))]"

definition booking_json :: "pytime \<Rightarrow> Booking \<Rightarrow> pyval" where
  "booking_json tm booking =
     PDict [(''booking_id'', PStr (bk_uid booking)),
            (''title'', PStr (bk_title booking)),
            (''start_time'', PStr (isoformat tm (bk_start_time booking))),
            (''end_time'', PStr (isoformat tm (bk_end_time booking))),
            (''status'', PStr (bk_status booking)),
            (''attendees'', PList (map attendee_json (bk_attendees booking)))]"

text \<open>
  Lines 463--470 of \<^verbatim>\<open>_book_event\<close>: the duration requested by the start and end times, 30
  minutes when one of them is missing.  The parsing is outside the \<^verbatim>\<open>try\<close>.
\<close>

definition requested_duration :: "pytime \<Rightarrow> pyval \<Rightarrow> pyval \<Rightarrow> exn + int" where
  "requested_duration tm start_time_str end_time_str =
     (if truthy start_time_str \<and> truthy end_time_str
      then (case fromisoformat_val tm start_time_str of
              Inl e \<Rightarrow> Inl e
            | Inr start_time \<Rightarrow>
                (case fromisoformat_val tm end_time_str of
                   Inl e \<Rightarrow> Inl e
                 | Inr end_time \<Rightarrow> duration_minutes start_time end_time))
      else Inr 30)"

text \<open>The body of the \<^verbatim>\<open>try\<close> of \<^verbatim>\<open>_book_event\<close> (lines 498--532).\<close>

definition book_event_body ::
  "pytime \<Rightarrow> calcom \<Rightarrow> (string \<times> pyval) list \<Rightarrow> pyval \<Rightarrow> exn + pyval" where
  "book_event_body tm cal a event_type_id =
     (case fromisoformat_val tm (dict_get a ''start_time'') of
        Inl e \<Rightarrow> Inl e
      | Inr start_time \<Rightarrow>
          (case fromisoformat_val tm (dict_get a ''end_time'') of
             Inl e \<Rightarrow> Inl e
           | Inr end_time \<Rightarrow>
               (case cal_book_event cal
                       \<lparr>br_event_type_id = event_type_id,
                        br_start_time = start_time,
                        br_end_time = end_time,
                        br_name = dict_get a ''name'',
                        br_email = dict_get a ''email'',
                        br_title = dict_get a ''title'',
                        br_description = dict_get a ''description'',
                        br_timezone =
                          dict_get_default a ''timezone'' (PStr ''America/Los_Angeles''),
                        br_language = dict_get_default a ''language'' (PStr ''en'')\<rparr> of
                  Inl e \<Rightarrow> Inl e
                | Inr booking \<Rightarrow> Inr (booking_json tm booking))))"

text \<open>\<^verbatim>\<open>ChatService._book_event\<close>.\<close>

definition book_event_handler :: "pytime \<Rightarrow> calcom \<Rightarrow> pyval \<Rightarrow> exn + pyval" where
  "book_event_handler tm cal args =
     (case args of
        PDict a \<Rightarrow>
          let event_type_id = dict_get a ''event_type_id'';
              start_time_str = dict_get a ''start_time'';
              end_time_str = dict_get a ''end_time''
          in (case (if \<not> truthy event_type_id
                    then (case requested_duration tm start_time_str end_time_str of
                            Inl e \<Rightarrow> Inl e
                          | Inr minutes \<Rightarrow> default_event_type_id cal (PInt minutes))
                    else Inr event_type_id) of
                Inl e \<Rightarrow> Inl e
              | Inr event_type_id' \<Rightarrow>
                  if \<not> truthy start_time_str then Inl (ValidationError ''Start time is required'')
                  else if \<not> truthy end_time_str then Inl (ValidationError ''End time is required'')
                  else if \<not> truthy (dict_get a ''name'') then Inl (ValidationError ''Name is required'')
                  else if \<not> truthy (dict_get a ''email'') then Inl (ValidationError ''Email is required'')
                  else reraise_app ''Error booking event: ''
                         (book_event_body tm cal a event_type_id'))
      | _ \<Rightarrow> Inl (BuiltinError ''object has no attribute 'get' ''))"

text \<open>
  Lines 551--559 of \<^verbatim>\<open>_list_events\<close>: the date range computed from \<^verbatim>\<open>datetime.now()\<close>.
\<close>

definition current_week :: "pytime \<Rightarrow> pydatetime \<times> pydatetime" where
  "current_week tm =
     (let today = now tm;
          start_of_week = plus_days today (- weekday today);
          end_of_week = plus_days start_of_week 6;
          start_date = start_of_week;
          end_date = replace_hms end_of_week 23 59 59
      in (start_date, end_date))"

definition event_json :: "pytime \<Rightarrow> Booking \<Rightarrow> pyval" where
  "event_json tm booking =
     PDict [(''id'', PStr (bk_uid booking)),
            (''title'', PStr (bk_title booking)),
            (''start_time'', PStr (isoformat tm (bk_start_time booking))),
            (''end_time'', PStr (isoformat tm (bk_end_time booking))),
            (''status'', PStr (bk_status booking)),
            (''attendees'', PList (map attendee_json (bk_attendees booking)))]"

text \<open>
  \<^verbatim>\<open>ChatService._list_events\<close>.  The arguments \<^verbatim>\<open>start_date\<close> and \<^verbatim>\<open>end_date\<close> are read
  into local variables that are not used afterwards.
\<close>

definition list_events_handler :: "pytime \<Rightarrow> calcom \<Rightarrow> pyval \<Rightarrow> exn + pyval" where
  "list_events_handler tm cal args =
     (case args of
        PDict a \<Rightarrow>
          let email = dict_get a ''email'';
              start_date_str = dict_get a ''start_date'';
              end_date_str = dict_get a ''end_date'';
              status = dict_get a ''status''
          in if \<not> truthy email then Inl (ValidationError ''Email is required'')
             else reraise_app ''Error listing events: ''
                    (let (start_date, end_date) = current_week tm
                     in (case cal_get_bookings cal email start_date end_date status of
                           Inl e \<Rightarrow> Inl e
                         | Inr bookings \<Rightarrow>
                             Inr (PDict [(''events'', PList (map (event_json tm) bookings)),
                                         (''total'', PInt (int (length bookings)))])))
      | _ \<Rightarrow> Inl (BuiltinError ''object has no attribute 'get' ''))"

text \<open>\<^verbatim>\<open>ChatService._get_event_types\<close>.\<close>

definition event_type_json :: "EventType \<Rightarrow> pyval" where
  "event_type_json event_type =
     PDict [(''id'', PInt (et_id event_type)),
            (''title'', PStr (et_title event_type)),
            (''description'',
               (case et_description event_type of None \<Rightarrow> PNone | Some text \<Rightarrow> PStr text)),
            (''length'', PInt (et_length event_type))]"

definition get_event_types_handler :: "calcom \<Rightarrow> pyval \<Rightarrow> exn + pyval" where
  "get_event_types_handler cal args =
     reraise_app ''Error getting event types: ''
       (case cal_get_event_types cal of
          Inl e \<Rightarrow> Inl e
        | Inr event_types \<Rightarrow>
            Inr (PDict [(''event_types'', PList (map event_type_json event_types)),
                        (''total'', PInt (int (length event_types)))]))"

text \<open>\<^verbatim>\<open>ChatService._cancel_event\<close>.\<close>

definition cancel_event_handler :: "calcom \<Rightarrow> pyval \<Rightarrow> exn + pyval" where
  "cancel_event_handler cal args =
     (case args of
        PDict a \<Rightarrow>
          let booking_id = dict_get a ''booking_id'';
              reason = dict_get a ''reason''
          in if \<not> truthy booking_id then Inl (ValidationError ''Booking ID is required'')
             else reraise_app ''Error cancelling event: ''
                    (case cal_cancel_booking cal booking_id reason of
                       Inl e \<Rightarrow> Inl e
                     | Inr result \<Rightarrow>
                         Inr (PDict [(''success'', PBool True),
                                     (''booking_id'', booking_id),
                                     (''status'', PStr ''CANCELLED'')]))
      | _ \<Rightarrow> Inl (BuiltinError ''object has no attribute 'get' ''))"

text \<open>\<^verbatim>\<open>ChatService._reschedule_event\<close>.\<close>

definition reschedule_event_handler :: "pytime \<Rightarrow> calcom \<Rightarrow> pyval \<Rightarrow> exn + pyval" where
  "reschedule_event_handler tm cal args =
     (case args of
        PDict a \<Rightarrow>
          let booking_id = dict_get a ''booking_id'';
              start_time_str = dict_get a ''start_time'';
              end_time_str = dict_get a ''end_time'';
              reason = dict_get a ''reason''
          in if \<not> truthy booking_id then Inl (ValidationError ''Booking ID is required'')
             else if \<not> truthy start_time_str then Inl (ValidationError ''Start time is required'')
             else if \<not> truthy end_time_str then Inl (ValidationError ''End time is required'')
             else reraise_app ''Error rescheduling event: ''
                    (case fromisoformat_val tm start_time_str of
                       Inl e \<Rightarrow> Inl e
                     | Inr start_time \<Rightarrow>
                         (case fromisoformat_val tm end_time_str of
                            Inl e \<Rightarrow> Inl e
                          | Inr end_time \<Rightarrow>
                              (case cal_reschedule_booking cal booking_id start_time end_time
                                      reason of
                                 Inl e \<Rightarrow> Inl e
                               | Inr booking \<Rightarrow>
                                   Inr (PDict
                                     [(''success'', PBool True),
                                      (''booking_id'', PStr (bk_uid booking)),
                                      (''title'', PStr (bk_title booking)),
                                      (''start_time'', PStr (isoformat tm (bk_start_time booking))),
                                      (''end_time'', PStr (isoformat tm (bk_end_time booking))),
                                      (''status'', PStr (bk_status booking))]))))
      | _ \<Rightarrow> Inl (BuiltinError ''object has no attribute 'get' ''))"

text \<open>The six handlers of a \<^verbatim>\<open>ChatService\<close>.\<close>

definition chat_handlers :: "pylib \<Rightarrow> pytime \<Rightarrow> calcom \<Rightarrow> handlers" where
  "chat_handlers lib tm cal =
     \<lparr>h_get_event_types = get_event_types_handler cal,
      h_get_available_slots = get_available_slots_handler lib tm cal,
      h_book_event = book_event_handler tm cal,
      h_list_events = list_events_handler tm cal,
      h_cancel_event = cancel_event_handler cal,
      h_reschedule_event = reschedule_event_handler tm cal\<rparr>"

section \<open>Strings and numbers of the endpoint\<close>

text \<open>
  A character is a code point below 256.  \<^verbatim>\<open>str.lower()\<close> maps the capital letters A--Z and
  the capital letters of Latin-1 to their small forms.
\<close>

definition lower_char :: "char \<Rightarrow> char" where
  "lower_char c =
     (let n = (of_char c :: nat)
      in if (65 \<le> n \<and> n \<le> 90) \<or> (192 \<le> n \<and> n \<le> 222 \<and> n \<noteq> 215)
         then char_of (n + 32) else c)"

definition lower :: "string \<Rightarrow> string" where
  "lower s = map lower_char s"

text \<open>\<^verbatim>\<open>str.strip()\<close>: white space is removed at both ends.\<close>

definition is_space :: "char \<Rightarrow> bool" where
  "is_space c = ((of_char c :: nat) \<in> set [9, 10, 11, 12, 13, 28, 29, 30, 31, 32, 133, 160])"

definition strip :: "string \<Rightarrow> string" where
  "strip s = rev (dropWhile is_space (rev (dropWhile is_space s)))"

text \<open>\<^verbatim>\<open>int(s)\<close> on a string of decimal digits; \<open>None\<close> is the ValueError on any other string.\<close>

definition digit_value :: "char \<Rightarrow> nat option" where
  "digit_value c =
     (let n = (of_char c :: nat) in if 48 \<le> n \<and> n \<le> 57 then Some (n - 48) else None)"

fun int_of_digits_acc :: "nat \<Rightarrow> string \<Rightarrow> nat option" where
  "int_of_digits_acc acc [] = Some acc"
| "int_of_digits_acc acc (c # cs) =
     (case digit_value c of None \<Rightarrow> None | Some v \<Rightarrow> int_of_digits_acc (10 * acc + v) cs)"

definition int_of_digits :: "string \<Rightarrow> nat option" where
  "int_of_digits s = (if s = [] then None else int_of_digits_acc 0 s)"

text \<open>The format \<^verbatim>\<open>{n:02d}\<close> of a natural number: decimal, padded with a zero to two digits.\<close>

fun decimal :: "nat \<Rightarrow> string" where
  "decimal n =
     (if n < 10 then [char_of (48 + n)] else decimal (n div 10) @ [char_of (48 + n mod 10)])"

definition format_02d :: "nat \<Rightarrow> string" where
  "format_02d n = (if n < 10 then CHR ''0'' # decimal n else decimal n)"

text \<open>\<^verbatim>\<open>list(calendar.month_name)[1:]\<close> and \<^verbatim>\<open>month_names.index(name)\<close>.\<close>

definition month_names :: "string list" where
  "month_names = [''January'', ''February'', ''March'', ''April'', ''May'', ''June'', ''July'',
     ''August'', ''September'', ''October'', ''November'', ''December'']"

fun list_index :: "'a list \<Rightarrow> 'a \<Rightarrow> nat option" where
  "list_index [] x = None"
| "list_index (y # ys) x =
     (if y = x then Some 0 else (case list_index ys x of None \<Rightarrow> None | Some i \<Rightarrow> Some (Suc i)))"

text \<open>
  Python's \<^verbatim>\<open>==\<close> on untyped values: numbers and booleans compare by value, lists element
  by element, dictionaries as sets of entries.
\<close>

fun py_eq :: "pyval \<Rightarrow> pyval \<Rightarrow> bool" where
  "py_eq PNone w = (w = PNone)"
| "py_eq (PBool a) w = int_eq (if a then 1 else 0) w"
| "py_eq (PInt a) w = int_eq a w"
| "py_eq (PStr a) w = (w = PStr a)"
| "py_eq (PList xs) w =
     (case w of PList ys \<Rightarrow> list_all2 py_eq xs ys | _ \<Rightarrow> False)"
| "py_eq (PDict xs) w =
     (case w of
        PDict ys \<Rightarrow>
          length xs = length ys
          \<and> list_all (\<lambda>(k, v). case map_of ys k of None \<Rightarrow> False | Some v' \<Rightarrow> py_eq v v') xs
      | _ \<Rightarrow> False)"

text \<open>
  \<^verbatim>\<open>t in v\<close> for a string \<open>t\<close>: a substring test on a string, membership in a list, a key
  test on a dictionary, TypeError on anything else.
\<close>

definition str_in :: "string \<Rightarrow> pyval \<Rightarrow> exn + bool" where
  "str_in t v =
     (case v of
        PStr s \<Rightarrow> Inr (sublist t s)
      | PList xs \<Rightarrow> Inr (PStr t \<in> set xs)
      | PDict d \<Rightarrow> Inr (map_of d t \<noteq> None)
      | _ \<Rightarrow> Inl (BuiltinError ''argument is not iterable''))"

section \<open>Date extraction by the model (\<^verbatim>\<open>app/utils/date.py\<close>)\<close>

text \<open>
  The instruction of \<^verbatim>\<open>parse_date_with_llm\<close>; the line breaks and the indentation of the
  source literal are written as single spaces.
\<close>

definition extraction_instruction :: string where
  "extraction_instruction =
     ''You are a helpful assistant that extracts date and time information from text. '' @
     ''Extract the date, start time, and end time if present. Return ISO format dates and 24-hour times. '' @
     ''If no specific date is mentioned, assume today's date. If no specific time is mentioned, return null for times.''"

text \<open>
  \<^verbatim>\<open>parse_date_with_llm\<close>: the arguments of the first \<^verbatim>\<open>extract_datetime\<close> call of the
  completion; \<^verbatim>\<open>None\<close> when there is none and when anything raises.  The function
  definition it passes to \<^verbatim>\<open>chat_completion\<close> is a plain dictionary.
\<close>

definition parse_date_with_llm :: "pylib \<Rightarrow> string \<Rightarrow> pyval" where
  "parse_date_with_llm lib date_str =
     (case chat_completion lib
             [\<lparr>msg_role = SYSTEM, msg_content = extraction_instruction, msg_name = None\<rparr>,
              \<lparr>msg_role = USER,
               msg_content = ''Parse the following date/time: '' @ date_str,
               msg_name = None\<rparr>]
             [FunctionDict ''extract_datetime''] of
        Inl e \<Rightarrow> PNone
      | Inr completion \<Rightarrow>
          (case parse_response lib completion of
             Inl e \<Rightarrow> PNone
           | Inr (assistant, function_calls) \<Rightarrow>
               (case function_calls of
                  None \<Rightarrow> PNone
                | Some calls \<Rightarrow>
                    (case find (\<lambda>fc. fc_name fc = ''extract_datetime'') calls of
                       None \<Rightarrow> PNone
                     | Some fc \<Rightarrow> fc_arguments fc))))"

section \<open>Chat endpoint (\<^verbatim>\<open>send_message\<close> in \<^verbatim>\<open>app/api/routers/chat.py\<close>)\<close>

record ChatRequest =
  req_message :: string
  req_user_id :: "string option"
  req_session_id :: "string option"

text \<open>\<^verbatim>\<open>ChatResponse\<close> of \<^verbatim>\<open>app/schemas/chat.py\<close>.\<close>

record ChatResponse =
  resp_response :: string
  resp_session_id :: string
  resp_requires_action :: bool
  resp_action_details :: "function_call option"

text \<open>
  The four \<^verbatim>\<open>re.search\<close> calls of the endpoint on the message, each giving the groups of
  the leftmost match:
  \<^item> \<open>search_name\<close>: group 1 of \<^verbatim>\<open>for\s+([^(]+)\<close>;
  \<^item> \<open>search_email\<close>: group 1 of \<^verbatim>\<open>([a-zA-Z0-9_.+-]+@[a-zA-Z0-9-]+\.[a-zA-Z0-9-.]+)\<close>;
  \<^item> \<open>search_date\<close>: groups 1 and 2 of
    \<^verbatim>\<open>(January|...|December)\s+(\d+)(?:st|nd|rd|th)?\<close>;
  \<^item> \<open>search_time\<close>: groups 1 and 2 of \<^verbatim>\<open>(\d+):(\d+)\<close>.
\<close>

record pyre =
  search_name :: "string \<Rightarrow> string option"
  search_email :: "string \<Rightarrow> string option"
  search_date :: "string \<Rightarrow> (string \<times> string) option"
  search_time :: "string \<Rightarrow> (string \<times> string) option"

text \<open>
  What the auto-booking code does to the outside, in order: the log line
  ``Auto-booking logic triggered'', the call of \<^verbatim>\<open>parse_date_with_llm\<close>, and the call of
  \<^verbatim>\<open>calcom_service.book_event\<close> with its arguments.
\<close>

datatype event =
    AutoBookingTriggered
  | ParseDateCalled
  | BookEventCalled book_request

definition booking_keywords :: "string list" where
  "booking_keywords = [''book'', ''schedule'', ''appointment'', ''meeting'', ''reserve'']"

text \<open>Line 82: \<^verbatim>\<open>any(keyword in request.message.lower() for keyword in booking_keywords)\<close>.\<close>

definition is_booking_request :: "string \<Rightarrow> bool" where
  "is_booking_request message =
     list_ex (\<lambda>keyword. sublist keyword (lower message)) booking_keywords"

text \<open>
  Line 89, \<^verbatim>\<open>eval(str(result))\<close>: the text of a value that is not a string evaluates to the
  value again; the text of a string is evaluated as Python source by \<open>py_eval\<close>.
\<close>

definition eval_str :: "pylib \<Rightarrow> pyval \<Rightarrow> exn + pyval" where
  "eval_str lib v = (case v of PStr s \<Rightarrow> py_eval lib s | _ \<Rightarrow> Inr v)"

text \<open>
  Line 92, \<^verbatim>\<open>slots_data.get('slots') and len(slots_data.get('slots')) > 0\<close>: \<^verbatim>\<open>len\<close> raises
  TypeError on a number.
\<close>

definition has_slots :: "pyval \<Rightarrow> exn + bool" where
  "has_slots slots =
     (if \<not> truthy slots then Inr False
      else (case slots of
              PStr s \<Rightarrow> Inr (length s > 0)
            | PList xs \<Rightarrow> Inr (length xs > 0)
            | PDict d \<Rightarrow> Inr (length d > 0)
            | _ \<Rightarrow> Inl (BuiltinError ''object has no len()'')))"

text \<open>
  Lines 124--127: the date and the time of the extraction; \<open>Inr None\<close> is the \<^verbatim>\<open>else\<close>
  branch.  \<^verbatim>\<open>date_info.get\<close> raises AttributeError on a true value that is not a
  dictionary, and \<^verbatim>\<open>start_time + ":00"\<close> raises TypeError unless the start time is a string.
\<close>

definition extracted_target :: "pyval \<Rightarrow> exn + (pyval \<times> string) option" where
  "extracted_target date_info =
     (if \<not> truthy date_info then Inr None
      else (case date_info of
              PDict d \<Rightarrow>
                if truthy (dict_get d ''date'') \<and> truthy (dict_get d ''start_time'')
                then (case dict_get d ''start_time'' of
                        PStr start_time \<Rightarrow> Inr (Some (dict_get d ''date'', start_time @ '':00''))
                      | _ \<Rightarrow> Inl (BuiltinError ''unsupported operand type(s) for +''))
                else Inr None
            | _ \<Rightarrow> Inl (BuiltinError ''object has no attribute 'get' '')))"

text \<open>Lines 137--151: the date found in the message itself, in the year 2025.\<close>

definition direct_date :: "pyre \<Rightarrow> string \<Rightarrow> exn + pyval" where
  "direct_date re message =
     (case search_date re message of
        None \<Rightarrow> Inr PNone
      | Some (month_name, day_digits) \<Rightarrow>
          (case int_of_digits day_digits of
             None \<Rightarrow> Inl (BuiltinError ''invalid literal for int()'')
           | Some day \<Rightarrow>
               (case list_index month_names month_name of
                  None \<Rightarrow> Inl (BuiltinError ''is not in list'')
                | Some i \<Rightarrow>
                    Inr (PStr (''2025-'' @ format_02d (i + 1) @ ''-'' @ format_02d day)))))"

text \<open>Lines 154--164: the time found in the message itself.\<close>

definition direct_time :: "pyre \<Rightarrow> string \<Rightarrow> exn + string option" where
  "direct_time re message =
     (case search_time re message of
        None \<Rightarrow> Inr None
      | Some (hour_digits, minute_digits) \<Rightarrow>
          (case int_of_digits hour_digits of
             None \<Rightarrow> Inl (BuiltinError ''invalid literal for int()'')
           | Some hour \<Rightarrow>
               (case int_of_digits minute_digits of
                  None \<Rightarrow> Inl (BuiltinError ''invalid literal for int()'')
                | Some minute \<Rightarrow>
                    let hour' = (if sublist ''pm'' (lower message) \<and> hour < 12
                                 then hour + 12 else hour)
                    in Inr (Some (format_02d hour' @ '':'' @ format_02d minute @ '':00'')))))"

text \<open>
  Lines 119--170: the target date and time, from the extraction, else from the message,
  and last the two values written into the code for one message.
\<close>

definition resolve_target ::
  "pyre \<Rightarrow> string \<Rightarrow> pyval \<Rightarrow> exn + pyval \<times> string option" where
  "resolve_target re message date_info =
     (case (case extracted_target date_info of
              Inl e \<Rightarrow> Inl e
            | Inr (Some (target_date, target_time)) \<Rightarrow> Inr (target_date, Some target_time)
            | Inr None \<Rightarrow>
                (case direct_date re message of
                   Inl e \<Rightarrow> Inl e
                 | Inr target_date \<Rightarrow>
                     (case direct_time re message of
                        Inl e \<Rightarrow> Inl e
                      | Inr target_time \<Rightarrow> Inr (target_date, target_time)))) of
        Inl e \<Rightarrow> Inl e
      | Inr (target_date, target_time) \<Rightarrow>
          if sublist ''March 14th'' message \<and> sublist ''2:30'' message
          then Inr (PStr ''2025-03-14'', Some ''14:30:00'')
          else Inr (target_date, target_time))"

text \<open>
  Line 180: the comprehension over \<^verbatim>\<open>slots_data.get('slots', [])\<close> calls \<^verbatim>\<open>slot.get\<close> on
  every element, which raises AttributeError unless the element is a dictionary (the
  elements of a string and of a dictionary are strings).
\<close>

fun slot_dicts :: "pyval list \<Rightarrow> (string \<times> pyval) list list option" where
  "slot_dicts [] = Some []"
| "slot_dicts (v # vs) =
     (case v of
        PDict slot \<Rightarrow> (case slot_dicts vs of None \<Rightarrow> None | Some slots \<Rightarrow> Some (slot # slots))
      | _ \<Rightarrow> None)"

definition slots_of :: "pyval \<Rightarrow> exn + (string \<times> pyval) list list" where
  "slots_of slots =
     (case slots of
        PList vs \<Rightarrow> (case slot_dicts vs of
                      None \<Rightarrow> Inl (BuiltinError ''object has no attribute 'get' '')
                    | Some ds \<Rightarrow> Inr ds)
      | _ \<Rightarrow> Inl (BuiltinError ''object has no attribute 'get' ''))"

text \<open>Lines 183--188: the first slot on the target date whose start contains the time.\<close>

fun exact_slot ::
  "pyval \<Rightarrow> string \<Rightarrow> (string \<times> pyval) list list \<Rightarrow> exn + (string \<times> pyval) list option" where
  "exact_slot target_date target_time [] = Inr None"
| "exact_slot target_date target_time (slot # slots) =
     (if py_eq (dict_get slot ''date'') target_date
      then (case str_in target_time (dict_get slot ''start'') of
              Inl e \<Rightarrow> Inl e
            | Inr found \<Rightarrow>
                if found then Inr (Some slot)
                else exact_slot target_date target_time slots)
      else exact_slot target_date target_time slots)"

text \<open>Lines 176--201: the exact slot, else the first slot on the target date.\<close>

definition find_target_slot ::
  "pyval \<Rightarrow> string \<Rightarrow> (string \<times> pyval) list list \<Rightarrow> exn + (string \<times> pyval) list option" where
  "find_target_slot target_date target_time slots =
     (case exact_slot target_date target_time slots of
        Inl e \<Rightarrow> Inl e
      | Inr (Some target_slot) \<Rightarrow> Inr (Some target_slot)
      | Inr None \<Rightarrow>
          (case filter (\<lambda>slot. py_eq (dict_get slot ''date'') target_date) slots of
             [] \<Rightarrow> Inr None
           | target_slot # _ \<Rightarrow> Inr (Some target_slot)))"

text \<open>
  Lines 203--228: the booking of the slot found.  The time zone and the language are the
  defaults of \<^verbatim>\<open>CalComService.book_event\<close>.
\<close>

definition book_target_slot ::
  "pylib \<Rightarrow> pytime \<Rightarrow> calcom \<Rightarrow> pyval \<Rightarrow> string \<Rightarrow> string \<Rightarrow> pyval \<Rightarrow> string \<Rightarrow>
     (string \<times> pyval) list \<Rightarrow> ChatResponse \<Rightarrow> event list \<times> (exn + ChatResponse)" where
  "book_target_slot lib tm cal event_type_id name email target_date target_time target_slot
       chat_response =
     (case fromisoformat_val tm (dict_get target_slot ''start'') of
        Inl e \<Rightarrow> ([], Inl e)
      | Inr start_time \<Rightarrow>
          (case fromisoformat_val tm (dict_get target_slot ''end'') of
             Inl e \<Rightarrow> ([], Inl e)
           | Inr end_time \<Rightarrow>
               let request =
                     \<lparr>br_event_type_id = event_type_id,
                      br_start_time = start_time,
                      br_end_time = end_time,
                      br_name = PStr name,
                      br_email = PStr email,
                      br_title = PStr (''Appointment with '' @ name),
                      br_description = PStr (''Scheduled appointment for '' @ name),
                      br_timezone = PStr ''America/Los_Angeles'',
                      br_language = PStr ''en''\<rparr>
               in (case cal_book_event cal request of
                     Inl e \<Rightarrow> ([BookEventCalled request], Inl e)
                   | Inr booking \<Rightarrow>
                       ([BookEventCalled request],
                        Inr (chat_response
                          \<lparr>resp_response :=
                              ''Appointment booked successfully for '' @ name @ '' on ''
                              @ py_str lib target_date @ '' at '' @ target_time
                              @ ''. Booking ID: '' @ bk_uid booking,
                           resp_requires_action := False,
                           resp_action_details := None\<rparr>)))))"

text \<open>Lines 172--228, once the name, the email and the event type are known.\<close>

definition match_and_book ::
  "pylib \<Rightarrow> pytime \<Rightarrow> calcom \<Rightarrow> pyval \<Rightarrow> string \<Rightarrow> string \<Rightarrow> pyval \<Rightarrow> string option \<Rightarrow>
     pyval \<Rightarrow> ChatResponse \<Rightarrow> event list \<times> (exn + ChatResponse)" where
  "match_and_book lib tm cal event_type_id name email target_date target_time slots
       chat_response =
     (case target_time of
        None \<Rightarrow> ([], Inr chat_response)
      | Some time \<Rightarrow>
          if \<not> (truthy target_date \<and> time \<noteq> []) then ([], Inr chat_response)
          else (case slots_of slots of
                  Inl e \<Rightarrow> ([], Inl e)
                | Inr slot_list \<Rightarrow>
                    (case find_target_slot target_date time slot_list of
                       Inl e \<Rightarrow> ([], Inl e)
                     | Inr None \<Rightarrow> ([], Inr chat_response)
                     | Inr (Some target_slot) \<Rightarrow>
                         if target_slot = [] then ([], Inr chat_response)
                         else book_target_slot lib tm cal event_type_id name email
                                target_date time target_slot chat_response)))"

text \<open>Lines 87--228: the auto-booking, entered when the trigger condition of line 86 holds.\<close>

definition auto_book ::
  "pylib \<Rightarrow> pytime \<Rightarrow> pyre \<Rightarrow> calcom \<Rightarrow> string \<Rightarrow> pyval \<Rightarrow> ChatResponse \<Rightarrow>
     event list \<times> (exn + ChatResponse)" where
  "auto_book lib tm re cal message result chat_response =
     (case eval_str lib result of
        Inl e \<Rightarrow> ([AutoBookingTriggered], Inl e)
      | Inr slots_data \<Rightarrow>
          (case slots_data of
             PDict d \<Rightarrow>
               (case has_slots (dict_get d ''slots'') of
                  Inl e \<Rightarrow> ([AutoBookingTriggered], Inl e)
                | Inr available \<Rightarrow>
                    if \<not> available then ([AutoBookingTriggered], Inr chat_response)
                    else
                      let event_type_id = dict_get d ''event_type_id''
                      in (case (search_name re message, search_email re message) of
                            (Some name_group, Some email) \<Rightarrow>
                              if \<not> truthy event_type_id
                              then ([AutoBookingTriggered], Inr chat_response)
                              else
                                let name = strip name_group;
                                    date_info = parse_date_with_llm lib message
                                in (case resolve_target re message date_info of
                                      Inl e \<Rightarrow> ([AutoBookingTriggered, ParseDateCalled], Inl e)
                                    | Inr (target_date, target_time) \<Rightarrow>
                                        (let (events, outcome) =
                                               match_and_book lib tm cal event_type_id name email
                                                 target_date target_time (dict_get d ''slots'')
                                                 chat_response
                                         in ([AutoBookingTriggered, ParseDateCalled] @ events,
                                             outcome)))
                          | _ \<Rightarrow> ([AutoBookingTriggered], Inr chat_response)))
           | _ \<Rightarrow> ([AutoBookingTriggered], Inl (BuiltinError ''object has no attribute 'get' ''))))"

text \<open>Lines 63--68: the response built from the answer of the chat service.\<close>

definition initial_response :: "ChatRequest \<Rightarrow> ServiceResponse \<Rightarrow> ChatResponse" where
  "initial_response request response =
     \<lparr>resp_response =
        (if msg_content (sr_message response) = [] then ''I'll check your scheduled events.''
         else msg_content (sr_message response)),
      resp_session_id =
        (case req_session_id request of
           None \<Rightarrow> ''new_session''
         | Some s \<Rightarrow> if s = [] then ''new_session'' else s),
      resp_requires_action =
        (case sr_function_calls response of None \<Rightarrow> False | Some calls \<Rightarrow> calls \<noteq> []),
      resp_action_details =
        (case sr_function_calls response of
           None \<Rightarrow> None
         | Some calls \<Rightarrow> (case calls of [] \<Rightarrow> None | fc # _ \<Rightarrow> Some fc))\<rparr>"

text \<open>
  Lines 71--228: the result of the first function call replaces the response text, and the
  auto-booking runs when that call is \<^verbatim>\<open>get_available_slots\<close> and the message asks for a
  booking.
\<close>

definition echo_result ::
  "pylib \<Rightarrow> pytime \<Rightarrow> pyre \<Rightarrow> calcom \<Rightarrow> ChatRequest \<Rightarrow> ServiceResponse \<Rightarrow>
     event list \<times> (exn + ChatResponse)" where
  "echo_result lib tm re cal request response =
     (let chat_response = initial_response request response
      in case sr_function_results response of
           None \<Rightarrow> ([], Inr chat_response)
         | Some function_results \<Rightarrow>
             if function_results = [] then ([], Inr chat_response)
             else (case sr_function_calls response of
                     None \<Rightarrow> ([], Inr chat_response)
                   | Some calls \<Rightarrow>
                       (case calls of
                          [] \<Rightarrow> ([], Inr chat_response)
                        | fc # _ \<Rightarrow>
                            let function_name = fc_name fc
                            in (case map_of function_results function_name of
                                  None \<Rightarrow> ([], Inr chat_response)
                                | Some result \<Rightarrow>
                                    let chat_response' =
                                          chat_response\<lparr>resp_response := py_str lib result\<rparr>
                                    in if function_name = ''get_available_slots''
                                          \<and> is_booking_request (req_message request)
                                       then auto_book lib tm re cal (req_message request)
                                              result chat_response'
                                       else ([], Inr chat_response')))))"

text \<open>
  Lines 236--244: a \<^verbatim>\<open>ValidationError\<close> and an \<^verbatim>\<open>OpenAIAPIError\<close> are raised again as they
  are, any other exception becomes an \<^verbatim>\<open>AppException\<close>.
\<close>

definition reraise :: "exn \<Rightarrow> exn" where
  "reraise e =
     (case e of
        ValidationError m \<Rightarrow> ValidationError m
      | OpenAIAPIError m \<Rightarrow> OpenAIAPIError m
      | _ \<Rightarrow> AppException (''Error processing message: '' @ str_exn e))"

text \<open>
  \<^verbatim>\<open>send_message\<close>.  The result is the chat service after the request, what the
  auto-booking did, and the response or the exception of the endpoint.
\<close>

definition send_message ::
  "pylib \<Rightarrow> pytime \<Rightarrow> pyre \<Rightarrow> calcom \<Rightarrow> handlers \<Rightarrow> ChatService \<Rightarrow> ChatRequest \<Rightarrow>
     ChatService \<times> event list \<times> (exn + ChatResponse)" where
  "send_message lib tm re cal hs chat_service request =
     (case process_message lib hs chat_service (req_message request) (req_user_id request)
             (req_session_id request) of
        (chat_service', Inl e) \<Rightarrow> (chat_service', [], Inl (reraise e))
      | (chat_service', Inr response) \<Rightarrow>
          (case echo_result lib tm re cal request response of
             (events, Inl e) \<Rightarrow> (chat_service', events, Inl (reraise e))
           | (events, Inr chat_response) \<Rightarrow> (chat_service', events, Inr chat_response)))"

section \<open>A sample world\<close>

text \<open>
  A library, a provider and two messages on which the definitions above can be run.  The
  sample functions give what Python and the provider would give on the values that occur
  in the runs below; on other values they give an error or a placeholder.
\<close>

text \<open>
  Python's \<^verbatim>\<open>repr\<close> on values whose strings hold neither quotes, backslashes nor control
  characters.
\<close>

fun join_comma :: "string list \<Rightarrow> string" where
  "join_comma [] = []"
| "join_comma [s] = s"
| "join_comma (s # t # ts) = s @ '', '' @ join_comma (t # ts)"

fun sample_repr :: "pyval \<Rightarrow> string" where
  "sample_repr PNone = ''None''"
| "sample_repr (PBool b) = (if b then ''True'' else ''False'')"
| "sample_repr (PInt i) = (if i < 0 then CHR ''-'' # decimal (nat (- i)) else decimal (nat i))"
| "sample_repr (PStr s) = [CHR 0x27] @ s @ [CHR 0x27]"
| "sample_repr (PList vs) = ''['' @ join_comma (map sample_repr vs) @ '']''"
| "sample_repr (PDict d) =
     ''{'' @ join_comma (map (\<lambda>(k, v). [CHR 0x27] @ k @ [CHR 0x27] @ '': '' @ sample_repr v) d)
       @ ''}''"

definition booking_message :: string where
  "booking_message =
     ''Book an appointment for Jane Doe (jane@example.com) on March 14th at 2:30pm''"

definition question_message :: string where
  "question_message = ''What times are open March 14th?''"

definition later_message :: string where
  "later_message =
     ''Please schedule a meeting for Jane Doe (jane@example.com) on March 20th at 10:00am''"

definition sample_re :: pyre where
  "sample_re =
     \<lparr>search_name = (\<lambda>s. if s = booking_message \<or> s = later_message
                          then Some ''Jane Doe '' else None),
      search_email = (\<lambda>s. if s = booking_message \<or> s = later_message
                           then Some ''jane@example.com'' else None),
      search_date = (\<lambda>s. if s = booking_message \<or> s = question_message
                          then Some (''March'', ''14'')
                          else if s = later_message then Some (''March'', ''20'') else None),
      search_time = (\<lambda>s. if s = booking_message then Some (''2'', ''30'')
                          else if s = later_message then Some (''10'', ''00'') else None)\<rparr>"

text \<open>Datetimes of March 2025 in the zone UTC-07:00; day 739310 is 2025-02-28.\<close>

definition march :: "nat \<Rightarrow> nat \<Rightarrow> nat \<Rightarrow> pydatetime" where
  "march day h m = \<lparr>dt_ordinal = 739310 + int day, dt_hour = h, dt_minute = m, dt_second = 0,
     dt_microsecond = 0, dt_utcoffset = Some (- 420)\<rparr>"

definition sample_isoformat :: "pydatetime \<Rightarrow> string" where
  "sample_isoformat d =
     ''2025-03-'' @ format_02d (nat (dt_ordinal d - 739310)) @ ''T'' @ format_02d (dt_hour d)
       @ '':'' @ format_02d (dt_minute d) @ '':'' @ format_02d (dt_second d)
       @ (case dt_utcoffset d of None \<Rightarrow> [] | Some off \<Rightarrow> ''-07:00'')"

definition sample_time :: pytime where
  "sample_time =
     \<lparr>now = \<lparr>dt_ordinal = 739322, dt_hour = 15, dt_minute = 30, dt_second = 0,
              dt_microsecond = 0, dt_utcoffset = None\<rparr>,
      strptime_ymd = (\<lambda>s. if s = ''2025-03-14'' then Inr 739324
                           else if s = ''2025-03-05'' then Inr 739315
                           else if s = ''2025-03-10'' then Inr 739320
                           else Inl ''time data does not match format''),
      fromisoformat = (\<lambda>s. if s = ''2025-03-14T14:00:00-07:00'' then Inr (march 14 14 0)
                            else if s = ''2025-03-14T14:30:00-07:00'' then Inr (march 14 14 30)
                            else if s = ''2025-03-14T15:00:00-07:00'' then Inr (march 14 15 0)
                            else Inl ''Invalid isoformat string''),
      isoformat = sample_isoformat,
      strftime_ymd = (\<lambda>d. ''2025-03-'' @ format_02d (nat (dt_ordinal d - 739310)))\<rparr>"

definition sample_event_types :: "EventType list" where
  "sample_event_types =
     [\<lparr>et_id = 101, et_slug = ''15min'', et_title = ''15 Min Meeting'', et_description = None,
       et_length = 15, et_hidden = False\<rparr>,
      \<lparr>et_id = 102, et_slug = ''30min'', et_title = ''30 Min Meeting'', et_description = None,
       et_length = 30, et_hidden = False\<rparr>,
      \<lparr>et_id = 103, et_slug = ''60min'', et_title = ''60 Min Meeting'', et_description = None,
       et_length = 60, et_hidden = False\<rparr>]"

definition half_hour_slot :: "nat \<Rightarrow> nat \<Rightarrow> nat \<Rightarrow> AvailableSlot" where
  "half_hour_slot day h m =
     \<lparr>slot_start = march day h m,
      slot_end = (if m < 30 then march day h (m + 30) else march day (h + 1) (m - 30))\<rparr>"

text \<open>
  The provider: slots on 14 March at 14:00 and 14:30 and twelve slots on 17 March, none
  on the other days; \<open>booked\<close> is its answer to a booking.
\<close>

definition sample_calcom :: "exn + Booking \<Rightarrow> calcom" where
  "sample_calcom booked =
     \<lparr>cal_get_event_types = Inr sample_event_types,
      cal_get_available_slots =
        (\<lambda>event_type_id start_date end_date timezone.
           Inr (filter (\<lambda>slot. dt_ordinal start_date \<le> dt_ordinal (slot_start slot)
                              \<and> dt_ordinal (slot_start slot) < dt_ordinal end_date)
                  ([half_hour_slot 14 14 0, half_hour_slot 14 14 30]
                   @ map (\<lambda>k. half_hour_slot 17 (9 + k div 2) (30 * (k mod 2))) [0..<12]))),
      cal_book_event = (\<lambda>request. booked),
      cal_get_bookings = (\<lambda>email start_date end_date status. Inr []),
      cal_cancel_booking = (\<lambda>booking_id reason. Inr (PDict [])),
      cal_reschedule_booking =
        (\<lambda>booking_id start_time end_time reason. Inl (CalComAPIError ''Cal.com API error: 404''))\<rparr>"

definition sample_booking :: Booking where
  "sample_booking =
     \<lparr>bk_id = 5512, bk_uid = ''bk_7gXq2'', bk_title = ''Appointment with Jane Doe'',
      bk_description = Some ''Scheduled appointment for Jane Doe'',
      bk_start_time = march 14 14 30, bk_end_time = march 14 15 0, bk_status = ''ACCEPTED'',
      bk_attendees = [\<lparr>att_email = ''jane@example.com'', att_name = ''Jane Doe'',
                       att_timezone = Some ''America/Los_Angeles''\<rparr>],
      bk_event_type_id = 102\<rparr>"

text \<open>
  The library.  The model answers every chat with a call of \<^verbatim>\<open>get_available_slots\<close> for
  14 March, and would answer a request that offers only \<^verbatim>\<open>extract_datetime\<close> with the tool
  call whose argument text is \<open>extraction\<close>.
\<close>

definition sample_lib :: "string \<Rightarrow> pylib" where
  "sample_lib extraction =
     \<lparr>uuid4 = ''9f1c2b7e-3d4a-4e5f-8a6b-7c8d9e0f1a2b'',
      py_repr = sample_repr,
      py_eval = (\<lambda>s. Inl (BuiltinError ''invalid syntax'')),
      json_loads =
        (\<lambda>s. if s = ''{\"date\": \"2025-03-14\"}''
              then Inr (PDict [(''date'', PStr ''2025-03-14'')])
              else if s = ''{\"date\": \"2025-03-14\", \"start_time\": \"14:30\", \"is_specific\": true}''
              then Inr (PDict [(''date'', PStr ''2025-03-14''), (''start_time'', PStr ''14:30''),
                               (''is_specific'', PBool True)])
              else if s = ''{\"date\": \"2025-03-20\", \"start_time\": \"10:00\", \"is_specific\": true}''
              then Inr (PDict [(''date'', PStr ''2025-03-20''), (''start_time'', PStr ''10:00''),
                               (''is_specific'', PBool True)])
              else Inl ''Expecting value''),
      create_completion =
        (\<lambda>messages functions.
           if functions = [''extract_datetime'']
           then Inr [\<lparr>cm_content = None,
                      cm_tool_calls = Some [\<lparr>tc_type = ''function'',
                        tc_function_name = ''extract_datetime'',
                        tc_function_arguments = extraction\<rparr>]\<rparr>]
           else Inr [\<lparr>cm_content = None,
                      cm_tool_calls = Some [\<lparr>tc_type = ''function'',
                        tc_function_name = ''get_available_slots'',
                        tc_function_arguments = ''{\"date\": \"2025-03-14\"}''\<rparr>]\<rparr>])\<rparr>"

text \<open>Two argument texts that the model could give to the date extraction.\<close>

definition string_extraction :: string where
  "string_extraction =
     ''{\"date\": \"2025-03-14\", \"start_time\": \"14:30\", \"is_specific\": true}''"

definition later_extraction :: string where
  "later_extraction =
     ''{\"date\": \"2025-03-20\", \"start_time\": \"10:00\", \"is_specific\": true}''"

text \<open>
  A request with the message and the session identifier given, sent to a new chat service
  whose provider answers a booking with \<open>booked\<close> and whose library is
  \<open>sample_lib extraction\<close>.
\<close>

definition sample_request :: "string \<Rightarrow> string option \<Rightarrow> ChatRequest" where
  "sample_request message session_id =
     \<lparr>req_message = message, req_user_id = Some ''user123'', req_session_id = session_id\<rparr>"

definition sample_service :: ChatService where
  "sample_service = new_service ''Cal.com Scheduling Assistant''"

definition sample_run ::
  "string \<Rightarrow> exn + Booking \<Rightarrow> string \<Rightarrow> string option \<Rightarrow>
     ChatService \<times> event list \<times> (exn + ChatResponse)" where
  "sample_run extraction booked message session_id =
     send_message (sample_lib extraction) sample_time sample_re (sample_calcom booked)
       (chat_handlers (sample_lib extraction) sample_time (sample_calcom booked))
       sample_service (sample_request message session_id)"

text \<open>Six sample handlers, used to run the dispatch loop on a concrete turn.\<close>

definition demo_handlers :: handlers where
  "demo_handlers = \<lparr>h_get_event_types = (\<lambda>_. Inr (PDict [(''total'', PInt 0)])),
      h_get_available_slots = (\<lambda>_. Inl (ValidationError ''Date is required'')),
      h_book_event = (\<lambda>_. Inl (ValidationError ''Start time is required'')),
      h_list_events = (\<lambda>_. Inl (ValidationError ''Email is required'')),
      h_cancel_event = (\<lambda>_. Inl (ValidationError ''Booking ID is required'')),
      h_reschedule_event = (\<lambda>_. Inl (ValidationError ''Booking ID is required''))\<rparr>"

section \<open>Well-formed session stores\<close>

text \<open>
  A history is well formed when its first turn is the System turn and no later turn is one.
  The reachable services are those obtained from a new service by calls of
  \<^verbatim>\<open>_get_or_create_session\<close> and \<^verbatim>\<open>process_message\<close>, the only code that writes to
  \<^verbatim>\<open>sessions\<close> (\<^verbatim>\<open>ChatHistory.clear\<close> is never called).
\<close>

definition history_ok :: "ChatHistory \<Rightarrow> bool" where
  "history_ok h = (case h of [] \<Rightarrow> False
                   | m # ms \<Rightarrow> msg_role m = SYSTEM \<and> list_all (\<lambda>m'. msg_role m' \<noteq> SYSTEM) ms)"

definition store_ok :: "ChatService \<Rightarrow> bool" where
  "store_ok svc = (\<forall>sid h. sessions svc sid = Some h \<longrightarrow> history_ok h)"

inductive reachable :: "ChatService \<Rightarrow> bool" where
  reachable_new: "reachable (new_service prompt)"
| reachable_lookup:
    "reachable svc \<Longrightarrow> reachable (snd (get_or_create_session fresh svc session_id))"
| reachable_message:
    "reachable svc \<Longrightarrow>
       reachable (fst (process_message lib hs svc message user_id session_id))"

text \<open>
  An answer of the chat service as the endpoint receives it: one call of
  \<^verbatim>\<open>get_available_slots\<close> and its result with three slots.
\<close>

definition sample_slot_dicts :: "(string \<times> pyval) list list" where
  "sample_slot_dicts =
     [[(''start'', PStr ''2025-03-14T14:00:00-07:00''),
       (''end'', PStr ''2025-03-14T14:30:00-07:00''), (''date'', PStr ''2025-03-14'')],
      [(''start'', PStr ''2025-03-14T14:30:00-07:00''),
       (''end'', PStr ''2025-03-14T15:00:00-07:00''), (''date'', PStr ''2025-03-14'')],
      [(''start'', PStr ''2025-03-17T09:00:00-07:00''),
       (''end'', PStr ''2025-03-17T09:30:00-07:00''), (''date'', PStr ''2025-03-17'')]]"

definition sample_slots_result :: "(string \<times> pyval) list" where
  "sample_slots_result =
     [(''slots'', PList (map PDict sample_slot_dicts)),
      (''event_type_id'', PInt 102),
      (''event_type_name'', PStr ''30 Min Meeting'')]"

definition sample_call :: function_call where
  "sample_call = \<lparr>fc_name = ''get_available_slots'',
                   fc_arguments = PDict [(''date'', PStr ''2025-03-14'')]\<rparr>"

definition sample_response :: ServiceResponse where
  "sample_response =
     \<lparr>sr_message = \<lparr>msg_role = ASSISTANT, msg_content = [], msg_name = None\<rparr>,
      sr_function_calls = Some [sample_call],
      sr_function_results = Some [(''get_available_slots'', PDict sample_slots_result)]\<rparr>"



section \<open>Verified properties\<close>

subsection \<open>Function dispatch\<close>

lemma loop_history:
  "fst (process_function_calls_loop repr hs fcs h rs) =
     h @ map (\<lambda>fc. case call_handler hs (fc_name fc) (fc_arguments fc) of
                Inr result \<Rightarrow> \<lparr>msg_role = FUNCTION, msg_content = repr result, msg_name = Some (fc_name fc)\<rparr>
              | Inl e \<Rightarrow> \<lparr>msg_role = FUNCTION, msg_content = ''Error: '' @ str_exn e, msg_name = Some (fc_name fc)\<rparr>) fcs"
  by (induction fcs arbitrary: h rs) (auto simp: add_message_def split: sum.splits)

lemma call_handler_unknown:
  "name \<notin> set known_functions \<Longrightarrow>
     call_handler hs name args = Inl (ValidationError (''Unknown function: '' @ name))"
  by (simp add: call_handler_def known_functions_def)

lemma loop_results_unknown:
  "name \<notin> set known_functions \<Longrightarrow>
   name \<in> fc_name ` set fcs \<or> map_of rs name = Some (PDict [(''error'', PStr (''Unknown function: '' @ name))]) \<Longrightarrow>
   map_of (snd (process_function_calls_loop repr hs fcs h rs)) name =
     Some (PDict [(''error'', PStr (''Unknown function: '' @ name))])"
proof (induction fcs arbitrary: h rs)
  case Nil
  then show ?case by simp
next
  case (Cons fc fcs)
  show ?case
  proof (cases "fc_name fc = name")
    case True
    with Cons.prems(1) have ch: "call_handler hs (fc_name fc) (fc_arguments fc) = Inl (ValidationError (''Unknown function: '' @ name))"
      by (simp add: call_handler_unknown)
    show ?thesis using True ch Cons.prems(1)
      by (simp add: Cons.IH update_conv')
  next
    case False
    with Cons.prems(2) have "name \<in> fc_name ` set fcs \<or> map_of rs name = Some (PDict [(''error'', PStr (''Unknown function: '' @ name))])"
      by auto
    then show ?thesis using False Cons.prems(1)
      by (auto simp: Cons.IH update_conv' split: sum.splits)
  qed
qed

text \<open>
  Claim C8.  For every list of dispatched tool calls, the dispatch loop returns normally with
  one tool-result turn appended per call, in order, after the unchanged earlier history; each
  turn has role FUNCTION and carries the name of its call; when the call failed (an unknown
  name or an exception of the handler) the content of its turn is the error text; and a call
  with an unknown operation name fails with the validation error that ends up, in band, as the
  entry \<^verbatim>\<open>{"error": message}\<close> of the results.
\<close>

theorem dispatch_errors_in_band:
  assumes run: "process_function_calls repr hs fcs h = (h', rs)"
  shows "length h' = length h + length fcs \<and> take (length h) h' = h
    \<and> (\<forall>i<length fcs.
          msg_role (h' ! (length h + i)) = FUNCTION
        \<and> msg_name (h' ! (length h + i)) = Some (fc_name (fcs ! i))
        \<and> (\<forall>e. call_handler hs (fc_name (fcs ! i)) (fc_arguments (fcs ! i)) = Inl e
               \<longrightarrow> msg_content (h' ! (length h + i)) = ''Error: '' @ str_exn e))
    \<and> (\<forall>fc\<in>set fcs. fc_name fc \<notin> set known_functions \<longrightarrow>
          call_handler hs (fc_name fc) (fc_arguments fc)
            = Inl (ValidationError (''Unknown function: '' @ fc_name fc))
        \<and> map_of rs (fc_name fc)
            = Some (PDict [(''error'', PStr (''Unknown function: '' @ fc_name fc))]))"
proof -
  let ?turn = "\<lambda>fc. case call_handler hs (fc_name fc) (fc_arguments fc) of
                Inr result \<Rightarrow> \<lparr>msg_role = FUNCTION, msg_content = repr result, msg_name = Some (fc_name fc)\<rparr>
              | Inl e \<Rightarrow> \<lparr>msg_role = FUNCTION, msg_content = ''Error: '' @ str_exn e, msg_name = Some (fc_name fc)\<rparr>"
  from run have h': "h' = h @ map ?turn fcs"
    using loop_history [of repr hs fcs h "[]"] by (simp add: process_function_calls_def)
  from run have rs: "rs = snd (process_function_calls_loop repr hs fcs h [])"
    by (simp add: process_function_calls_def)
  have a: "length h' = length h + length fcs" "take (length h) h' = h"
    by (simp_all add: h')
  have b: "\<forall>i<length fcs.
          msg_role (h' ! (length h + i)) = FUNCTION
        \<and> msg_name (h' ! (length h + i)) = Some (fc_name (fcs ! i))
        \<and> (\<forall>e. call_handler hs (fc_name (fcs ! i)) (fc_arguments (fcs ! i)) = Inl e
               \<longrightarrow> msg_content (h' ! (length h + i)) = ''Error: '' @ str_exn e)"
    by (auto simp: h' split: sum.splits)
  have c: "\<forall>fc\<in>set fcs. fc_name fc \<notin> set known_functions \<longrightarrow>
          call_handler hs (fc_name fc) (fc_arguments fc)
            = Inl (ValidationError (''Unknown function: '' @ fc_name fc))
        \<and> map_of rs (fc_name fc)
            = Some (PDict [(''error'', PStr (''Unknown function: '' @ fc_name fc))])"
    using loop_results_unknown [of _ fcs "[]" repr hs h]
    by (auto simp: rs call_handler_unknown)
  from a b c show ?thesis by blast
qed

theorem dispatch_errors_in_band_witness:
  "process_function_calls (\<lambda>_. ''{}'') demo_handlers
      [\<lparr>fc_name = ''send_fax'', fc_arguments = PDict []\<rparr>,
       \<lparr>fc_name = ''get_event_types'', fc_arguments = PDict []\<rparr>] []
    = ([\<lparr>msg_role = FUNCTION, msg_content = ''Error: Unknown function: send_fax'',
         msg_name = Some ''send_fax''\<rparr>,
        \<lparr>msg_role = FUNCTION, msg_content = ''{}'', msg_name = Some ''get_event_types''\<rparr>],
       [(''send_fax'', PDict [(''error'', PStr ''Unknown function: send_fax'')]),
        (''get_event_types'', PDict [(''total'', PInt 0)])])
   \<and> ''send_fax'' \<notin> set known_functions
   \<and> map_of [(''send_fax'', PDict [(''error'', PStr ''Unknown function: send_fax'')]),
        (''get_event_types'', PDict [(''total'', PInt 0)])] ''send_fax''
       = Some (PDict [(''error'', PStr (''Unknown function: '' @ ''send_fax''))])"
proof -
  have run: "process_function_calls (\<lambda>_. ''{}'') demo_handlers
      [\<lparr>fc_name = ''send_fax'', fc_arguments = PDict []\<rparr>,
       \<lparr>fc_name = ''get_event_types'', fc_arguments = PDict []\<rparr>] []
    = ([\<lparr>msg_role = FUNCTION, msg_content = ''Error: Unknown function: send_fax'',
         msg_name = Some ''send_fax''\<rparr>,
        \<lparr>msg_role = FUNCTION, msg_content = ''{}'', msg_name = Some ''get_event_types''\<rparr>],
       [(''send_fax'', PDict [(''error'', PStr ''Unknown function: send_fax'')]),
        (''get_event_types'', PDict [(''total'', PInt 0)])])"
    by (simp add: process_function_calls_def call_handler_def demo_handlers_def add_message_def)
  have unk: "''send_fax'' \<notin> set known_functions"
    by (simp add: known_functions_def)
  from dispatch_errors_in_band [OF run] unk run show ?thesis
    by simp
qed

subsection \<open>Session store\<close>

lemma history_ok_iff:
  "history_ok h \<longleftrightarrow> h \<noteq> [] \<and> msg_role (hd h) = SYSTEM
      \<and> length (filter (\<lambda>m. msg_role m = SYSTEM) h) = 1"
proof (cases h)
  case Nil
  then show ?thesis by (simp add: history_ok_def)
next
  case (Cons m ms)
  have "list_all (\<lambda>m'. msg_role m' \<noteq> SYSTEM) ms \<longleftrightarrow> filter (\<lambda>m. msg_role m = SYSTEM) ms = []"
    by (induction ms) auto
  then show ?thesis using Cons by (auto simp: history_ok_def)
qed

lemma history_ok_append:
  "history_ok h \<Longrightarrow> list_all (\<lambda>m. msg_role m \<noteq> SYSTEM) ms \<Longrightarrow> history_ok (h @ ms)"
  by (cases h) (auto simp: history_ok_def)

lemma store_ok_new: "store_ok (new_service prompt)"
  by (simp add: store_ok_def new_service_def)

lemma store_ok_get_or_create:
  "store_ok svc \<Longrightarrow> store_ok (snd (get_or_create_session fresh svc session_id))"
  by (auto simp: store_ok_def get_or_create_session_def Let_def add_message_def history_ok_def)

lemma store_ok_session_add:
  "store_ok svc \<Longrightarrow> msg_role m \<noteq> SYSTEM \<Longrightarrow> store_ok (session_add svc sid m)"
  unfolding store_ok_def session_add_def add_message_def
  by (auto split: option.splits intro!: history_ok_append)

lemma store_ok_update:
  "store_ok svc \<Longrightarrow> history_ok h \<Longrightarrow> store_ok (svc\<lparr>sessions := (sessions svc)(sid \<mapsto> h)\<rparr>)"
  by (simp add: store_ok_def)

lemma parse_response_role:
  "parse_response lib c = Inr (m, fcs) \<Longrightarrow> msg_role m = ASSISTANT"
  by (auto simp: parse_response_def split: list.splits sum.splits)

lemma get_or_create_present:
  "get_or_create_session fresh svc session_id = (sid, svc') \<Longrightarrow> sessions svc' sid \<noteq> None"
  by (auto simp: get_or_create_session_def Let_def split: if_splits)

lemma session_add_present:
  "sessions svc sid \<noteq> None \<Longrightarrow> sessions (session_add svc sid m) sid \<noteq> None"
  by (auto simp: session_add_def split: option.splits)

lemma dispatch_history_ok:
  assumes "history_ok h" "process_function_calls repr hs fcs h = (h', rs)"
  shows "history_ok h'"
proof -
  let ?turn = "\<lambda>fc. case call_handler hs (fc_name fc) (fc_arguments fc) of
                Inr result \<Rightarrow> \<lparr>msg_role = FUNCTION, msg_content = repr result, msg_name = Some (fc_name fc)\<rparr>
              | Inl e \<Rightarrow> \<lparr>msg_role = FUNCTION, msg_content = ''Error: '' @ str_exn e, msg_name = Some (fc_name fc)\<rparr>"
  from assms(2) have h': "h' = h @ map ?turn fcs"
    using loop_history [of repr hs fcs h "[]"] by (simp add: process_function_calls_def)
  have "list_all (\<lambda>m. msg_role m \<noteq> SYSTEM) (map ?turn fcs)"
    by (auto simp: list_all_iff split: sum.splits)
  with assms(1) show ?thesis unfolding h' by (rule history_ok_append)
qed

lemma store_ok_process_message:
  assumes ok: "store_ok svc"
  shows "store_ok (fst (process_message lib hs svc message user_id session_id))"
proof -
  obtain sid svc1 where g: "get_or_create_session (uuid4 lib) svc session_id = (sid, svc1)"
    by (cases "get_or_create_session (uuid4 lib) svc session_id")
  have ok1: "store_ok svc1" using store_ok_get_or_create [OF ok, of "uuid4 lib" session_id] g by simp
  define svc2 where "svc2 = session_add svc1 sid \<lparr>msg_role = USER, msg_content = message, msg_name = None\<rparr>"
  have ok2: "store_ok svc2" unfolding svc2_def by (rule store_ok_session_add [OF ok1]) simp
  show ?thesis
  proof (cases "chat_completion lib (session_history svc2 sid) get_cal_functions")
    case (Inl e)
    then show ?thesis using g ok2 by (simp add: process_message_def svc2_def)
  next
    case (Inr completion)
    show ?thesis
    proof (cases "parse_response lib completion")
      case (Inl e)
      then show ?thesis using g ok2 Inr by (simp add: process_message_def svc2_def)
    next
      case inr: (Inr p)
      obtain assistant fcs where p: "p = (assistant, fcs)" by (cases p)
      have role: "msg_role assistant = ASSISTANT"
        using inr p parse_response_role by blast
      define svc3 where "svc3 = session_add svc2 sid assistant"
      have ok3: "store_ok svc3" unfolding svc3_def
        by (rule store_ok_session_add [OF ok2]) (simp add: role)
      show ?thesis
      proof (cases fcs)
        case None
        then show ?thesis using g Inr inr p ok3
          by (simp add: process_message_def svc2_def svc3_def)
      next
        case (Some calls)
        show ?thesis
        proof (cases "calls = []")
          case True
          then show ?thesis using g Inr inr p ok3 Some
            by (simp add: process_message_def svc2_def svc3_def)
        next
          case False
          obtain h' rs where d: "process_function_calls (py_str lib) hs calls (session_history svc3 sid) = (h', rs)"
            by (cases "process_function_calls (py_str lib) hs calls (session_history svc3 sid)")
          have pres: "sessions svc3 sid \<noteq> None"
            unfolding svc3_def svc2_def
            by (intro session_add_present get_or_create_present [OF g])
          then have "history_ok (session_history svc3 sid)"
            using ok3 by (auto simp: store_ok_def session_history_def)
          then have "history_ok h'" using d by (rule dispatch_history_ok)
          then have "store_ok (svc3\<lparr>sessions := (sessions svc3)(sid \<mapsto> h')\<rparr>)"
            by (rule store_ok_update [OF ok3])
          then show ?thesis using g Inr inr p Some False d
            by (simp add: process_message_def Let_def svc2_def svc3_def)
        qed
      qed
    qed
  qed
qed

lemma reachable_store_ok: "reachable svc \<Longrightarrow> store_ok svc"
  by (induction rule: reachable.induct)
     (simp_all add: store_ok_new store_ok_get_or_create store_ok_process_message)

text \<open>
  Claim C9, as amended.  In every reachable session store, each session starts with the System
  turn and holds exactly one System turn.  A call of \<^verbatim>\<open>_get_or_create_session\<close> with a
  non-empty identifier that is known returns the store unchanged; with a non-empty identifier
  that is unknown it creates, without error, a session under that identifier holding exactly
  the System turn; and repeating the call with the same identifier changes nothing.  (An empty
  string is treated like an absent identifier: the session is created under a generated one.)
\<close>

theorem session_store_system_turn:
  assumes "reachable svc"
  shows "(\<forall>sid h. sessions svc sid = Some h \<longrightarrow>
            h \<noteq> [] \<and> msg_role (hd h) = SYSTEM
          \<and> length (filter (\<lambda>m. msg_role m = SYSTEM) h) = 1)
    \<and> (\<forall>fresh s. s \<noteq> [] \<and> sessions svc s \<noteq> None \<longrightarrow>
          get_or_create_session fresh svc (Some s) = (s, svc))
    \<and> (\<forall>fresh s. s \<noteq> [] \<and> sessions svc s = None \<longrightarrow>
          get_or_create_session fresh svc (Some s)
            = (s, svc\<lparr>sessions := (sessions svc)(s \<mapsto>
                 [\<lparr>msg_role = SYSTEM, msg_content = system_prompt svc, msg_name = None\<rparr>])\<rparr>))
    \<and> (\<forall>fresh fresh' s. s \<noteq> [] \<longrightarrow>
          get_or_create_session fresh'
              (snd (get_or_create_session fresh svc (Some s))) (Some s)
            = get_or_create_session fresh svc (Some s))"
proof -
  have a: "\<forall>sid h. sessions svc sid = Some h \<longrightarrow>
            h \<noteq> [] \<and> msg_role (hd h) = SYSTEM
          \<and> length (filter (\<lambda>m. msg_role m = SYSTEM) h) = 1"
    using reachable_store_ok [OF assms] by (simp add: store_ok_def history_ok_iff)
  have b: "\<forall>fresh s. s \<noteq> [] \<and> sessions svc s \<noteq> None \<longrightarrow>
          get_or_create_session fresh svc (Some s) = (s, svc)"
    by (auto simp: get_or_create_session_def)
  have c: "\<forall>fresh s. s \<noteq> [] \<and> sessions svc s = None \<longrightarrow>
          get_or_create_session fresh svc (Some s)
            = (s, svc\<lparr>sessions := (sessions svc)(s \<mapsto>
                 [\<lparr>msg_role = SYSTEM, msg_content = system_prompt svc, msg_name = None\<rparr>])\<rparr>)"
    by (simp add: get_or_create_session_def add_message_def)
  have d: "\<forall>fresh fresh' s. s \<noteq> [] \<longrightarrow>
          get_or_create_session fresh'
              (snd (get_or_create_session fresh svc (Some s))) (Some s)
            = get_or_create_session fresh svc (Some s)"
    by (simp add: get_or_create_session_def)
  from a b c d show ?thesis by blast
qed

theorem session_store_system_turn_witness:
  "reachable (new_service ''Cal.com Scheduling Assistant'')
   \<and> ''session456'' \<noteq> []
   \<and> sessions (new_service ''Cal.com Scheduling Assistant'') ''session456'' = None
   \<and> get_or_create_session ''9f1c2b7e-3d4a-4e5f-8a6b-7c8d9e0f1a2b''
        (new_service ''Cal.com Scheduling Assistant'') (Some ''session456'')
      = (''session456'',
         (new_service ''Cal.com Scheduling Assistant'')\<lparr>sessions :=
            (sessions (new_service ''Cal.com Scheduling Assistant''))(''session456'' \<mapsto>
              [\<lparr>msg_role = SYSTEM,
                msg_content = system_prompt (new_service ''Cal.com Scheduling Assistant''),
                msg_name = None\<rparr>])\<rparr>)"
proof -
  have r: "reachable (new_service ''Cal.com Scheduling Assistant'')"
    by (rule reachable_new)
  have n: "sessions (new_service ''Cal.com Scheduling Assistant'') ''session456'' = None"
    by (simp add: new_service_def)
  from session_store_system_turn [OF r] n r show ?thesis
    by simp
qed

text \<open>
  The claim as stated fails for the identifier \<^verbatim>\<open>""\<close>, which is present and unknown: the
  session is created under the generated identifier and none exists under \<^verbatim>\<open>""\<close>.
\<close>

theorem empty_session_id_counterexample:
  "sessions (new_service ''Cal.com Scheduling Assistant'') '''' = None
   \<and> fst (get_or_create_session ''9f1c2b7e-3d4a-4e5f-8a6b-7c8d9e0f1a2b''
        (new_service ''Cal.com Scheduling Assistant'') (Some ''''))
      = ''9f1c2b7e-3d4a-4e5f-8a6b-7c8d9e0f1a2b''
   \<and> sessions (snd (get_or_create_session ''9f1c2b7e-3d4a-4e5f-8a6b-7c8d9e0f1a2b''
        (new_service ''Cal.com Scheduling Assistant'') (Some ''''))) '''' = None"
  by (simp add: new_service_def get_or_create_session_def Let_def)

subsection \<open>Default event type\<close>

lemma hd_insort_key:
  "hd (insort_key f x zs) = (if zs = [] \<or> f x \<le> f (hd zs) then x else hd zs)"
  by (cases zs) auto

lemma sort_key_eq_Nil: "sort_key f xs = [] \<longleftrightarrow> xs = []"
  by (metis length_sort list.size(3) length_0_conv)

lemma hd_sort_key_first_min:
  fixes f :: "'a \<Rightarrow> int"
  assumes "xs \<noteq> []"
  shows "\<exists>i<length xs. hd (sort_key f xs) = xs ! i
           \<and> (\<forall>j<length xs. f (xs ! i) \<le> f (xs ! j))
           \<and> (\<forall>j<i. f (xs ! i) < f (xs ! j))"
  using assms
proof (induction xs)
  case Nil
  then show ?case by simp
next
  case (Cons x xs)
  show ?case
  proof (cases "xs = []")
    case True
    then show ?thesis by simp
  next
    case False
    from Cons.IH [OF False] obtain i where i: "i < length xs"
      "hd (sort_key f xs) = xs ! i"
      "\<forall>j<length xs. f (xs ! i) \<le> f (xs ! j)"
      "\<forall>j<i. f (xs ! i) < f (xs ! j)" by blast
    have hd: "hd (sort_key f (x # xs)) = (if f x \<le> f (xs ! i) then x else xs ! i)"
      using False i(2) by (simp add: hd_insort_key sort_key_eq_Nil)
    show ?thesis
    proof (cases "f x \<le> f (xs ! i)")
      case True
      have "\<forall>j<length (x # xs). f ((x # xs) ! 0) \<le> f ((x # xs) ! j)"
      proof (intro allI impI)
        fix j assume "j < length (x # xs)"
        then show "f ((x # xs) ! 0) \<le> f ((x # xs) ! j)"
          using True i(3) by (cases j) (auto intro: order_trans)
      qed
      then show ?thesis using hd True
        by (intro exI [of _ 0]) simp
    next
      case nle: False
      have a: "\<forall>j<length (x # xs). f ((x # xs) ! Suc i) \<le> f ((x # xs) ! j)"
      proof (intro allI impI)
        fix j assume "j < length (x # xs)"
        then show "f ((x # xs) ! Suc i) \<le> f ((x # xs) ! j)"
          using nle i(3) by (cases j) auto
      qed
      have b: "\<forall>j<Suc i. f ((x # xs) ! Suc i) < f ((x # xs) ! j)"
      proof (intro allI impI)
        fix j assume "j < Suc i"
        then show "f ((x # xs) ! Suc i) < f ((x # xs) ! j)"
          using nle i(4) by (cases j) auto
      qed
      show ?thesis using hd nle i(1) a b
        by (intro exI [of _ "Suc i"]) simp
    qed
  qed
qed

lemma find_first_index:
  "find P xs = Some x \<Longrightarrow> \<exists>i<length xs. x = xs ! i \<and> P (xs ! i) \<and> (\<forall>j<i. \<not> P (xs ! j))"
  by (auto simp: find_Some_iff)

lemma select_event_type_exact:
  assumes "find (\<lambda>et. et_length et = d) event_types = Some et"
  shows "select_event_type event_types (PInt d) = Inr et"
  using assms by (simp add: select_event_type_def int_eq_def)

lemma select_event_type_closest:
  assumes "find (\<lambda>et. et_length et = d) event_types = None" "event_types \<noteq> []"
  shows "select_event_type event_types (PInt d)
           = Inr (hd (sort_key (\<lambda>et. \<bar>et_length et - d\<bar>) event_types))"
  using assms
  by (auto simp: select_event_type_def int_eq_def as_int_def sort_key_eq_Nil split: list.splits)

lemma select_event_type_first_min:
  assumes ne: "event_types \<noteq> []"
  shows "\<exists>i<length event_types.
           select_event_type event_types (PInt d) = Inr (event_types ! i)
         \<and> (\<forall>j<length event_types.
               \<bar>et_length (event_types ! i) - d\<bar> \<le> \<bar>et_length (event_types ! j) - d\<bar>)
         \<and> (\<forall>j<i. \<bar>et_length (event_types ! i) - d\<bar> < \<bar>et_length (event_types ! j) - d\<bar>)"
proof (cases "find (\<lambda>et. et_length et = d) event_types")
  case None
  show ?thesis
    using hd_sort_key_first_min [OF ne, of "\<lambda>et. \<bar>et_length et - d\<bar>"]
    by (simp add: select_event_type_closest [OF None ne])
next
  case (Some et)
  from find_first_index [OF Some] obtain i where i: "i < length event_types"
    "et = event_types ! i" "et_length (event_types ! i) = d"
    "\<forall>j<i. et_length (event_types ! j) \<noteq> d" by blast
  show ?thesis
    using i select_event_type_exact [OF Some]
    by (intro exI [of _ i]) auto
qed

lemma default_event_type_id_unfold:
  assumes "cal_get_event_types cal = Inr event_types" "event_types \<noteq> []"
  shows "default_event_type_id cal duration =
           (case select_event_type event_types duration of
              Inl e \<Rightarrow> Inl e
            | Inr et \<Rightarrow> Inr (PInt (et_id et)))"
  using assms by (simp add: default_event_type_id_def)

lemma omitted_key: "map_of a k = None \<Longrightarrow> \<not> truthy (dict_get a k)"
  by (simp add: dict_get_def dict_get_default_def)

text \<open>
  Claim C7.  When the provider lists the event types \<open>event_types\<close> (not empty) and the requested
  duration is \<open>d\<close> minutes, the event type chosen by default is the first one, in provider
  listing order, among those whose length is closest to \<open>d\<close>; it has length \<open>d\<close> exactly
  whenever some listed type has.  \<^verbatim>\<open>_get_available_slots\<close> and \<^verbatim>\<open>_book_event\<close> both go on
  with the identifier of that type when \<^verbatim>\<open>event_type_id\<close> is omitted, and two providers with
  the same list give the same identifier.
\<close>

theorem default_event_type_selection:
  assumes types: "cal_get_event_types cal = Inr event_types" and ne: "event_types \<noteq> []"
  shows "\<exists>i<length event_types.
      default_event_type_id cal (PInt d) = Inr (PInt (et_id (event_types ! i)))
    \<and> ((\<exists>et\<in>set event_types. et_length et = d) \<longrightarrow> et_length (event_types ! i) = d)
    \<and> (\<forall>j<length event_types.
          \<bar>et_length (event_types ! i) - d\<bar> \<le> \<bar>et_length (event_types ! j) - d\<bar>)
    \<and> (\<forall>j<i. \<bar>et_length (event_types ! i) - d\<bar> < \<bar>et_length (event_types ! j) - d\<bar>)
    \<and> (\<forall>lib tm a.
          map_of a ''event_type_id'' = None \<and> truthy (dict_get a ''date'')
          \<and> dict_get_default a ''duration'' (PInt 30) = PInt d \<longrightarrow>
          get_available_slots_handler lib tm cal (PDict a)
            = reraise_app ''Error getting available slots: ''
                (get_available_slots_body lib tm cal (dict_get a ''date'')
                   (PInt (et_id (event_types ! i)))
                   (dict_get_default a ''timezone'' (PStr ''America/Los_Angeles''))))
    \<and> (\<forall>tm a.
          map_of a ''event_type_id'' = None
          \<and> requested_duration tm (dict_get a ''start_time'') (dict_get a ''end_time'') = Inr d
          \<and> truthy (dict_get a ''start_time'') \<and> truthy (dict_get a ''end_time'')
          \<and> truthy (dict_get a ''name'') \<and> truthy (dict_get a ''email'') \<longrightarrow>
          book_event_handler tm cal (PDict a)
            = reraise_app ''Error booking event: ''
                (book_event_body tm cal a (PInt (et_id (event_types ! i)))))
    \<and> (\<forall>cal'. cal_get_event_types cal' = Inr event_types \<longrightarrow>
          default_event_type_id cal' (PInt d) = default_event_type_id cal (PInt d))"
proof -
  from select_event_type_first_min [OF ne, of d] obtain i where i: "i < length event_types"
    and sel: "select_event_type event_types (PInt d) = Inr (event_types ! i)"
    and least: "\<forall>j<length event_types.
               \<bar>et_length (event_types ! i) - d\<bar> \<le> \<bar>et_length (event_types ! j) - d\<bar>"
    and first: "\<forall>j<i. \<bar>et_length (event_types ! i) - d\<bar> < \<bar>et_length (event_types ! j) - d\<bar>"
    by blast
  have dflt: "default_event_type_id cal (PInt d) = Inr (PInt (et_id (event_types ! i)))"
    by (simp add: default_event_type_id_unfold [OF types ne] sel)
  have exact: "(\<exists>et\<in>set event_types. et_length et = d) \<longrightarrow> et_length (event_types ! i) = d"
  proof
    assume "\<exists>et\<in>set event_types. et_length et = d"
    then obtain j where "j < length event_types" "et_length (event_types ! j) = d"
      by (auto simp: in_set_conv_nth)
    with least have "\<bar>et_length (event_types ! i) - d\<bar> \<le> 0" by fastforce
    then show "et_length (event_types ! i) = d" by simp
  qed
  have slots: "\<forall>lib tm a.
          map_of a ''event_type_id'' = None \<and> truthy (dict_get a ''date'')
          \<and> dict_get_default a ''duration'' (PInt 30) = PInt d \<longrightarrow>
          get_available_slots_handler lib tm cal (PDict a)
            = reraise_app ''Error getting available slots: ''
                (get_available_slots_body lib tm cal (dict_get a ''date'')
                   (PInt (et_id (event_types ! i)))
                   (dict_get_default a ''timezone'' (PStr ''America/Los_Angeles'')))"
    by (simp add: get_available_slots_handler_def Let_def omitted_key dflt)
  have book: "\<forall>tm a.
          map_of a ''event_type_id'' = None
          \<and> requested_duration tm (dict_get a ''start_time'') (dict_get a ''end_time'') = Inr d
          \<and> truthy (dict_get a ''start_time'') \<and> truthy (dict_get a ''end_time'')
          \<and> truthy (dict_get a ''name'') \<and> truthy (dict_get a ''email'') \<longrightarrow>
          book_event_handler tm cal (PDict a)
            = reraise_app ''Error booking event: ''
                (book_event_body tm cal a (PInt (et_id (event_types ! i))))"
    by (simp add: book_event_handler_def Let_def omitted_key dflt)
  have det: "\<forall>cal'. cal_get_event_types cal' = Inr event_types \<longrightarrow>
          default_event_type_id cal' (PInt d) = default_event_type_id cal (PInt d)"
    by (simp add: default_event_type_id_def types)
  from i dflt exact least first slots book det show ?thesis by blast
qed

theorem default_event_type_selection_witness:
  "cal_get_event_types (sample_calcom (Inr sample_booking)) = Inr sample_event_types
   \<and> sample_event_types \<noteq> []
   \<and> default_event_type_id (sample_calcom (Inr sample_booking)) (PInt 45) = Inr (PInt 102)
   \<and> default_event_type_id (sample_calcom (Inr sample_booking)) (PInt 60) = Inr (PInt 103)"
proof -
  have types: "cal_get_event_types (sample_calcom (Inr sample_booking)) = Inr sample_event_types"
    by (simp add: sample_calcom_def)
  have ne: "sample_event_types \<noteq> []"
    by (simp add: sample_event_types_def)
  have run: "default_event_type_id (sample_calcom (Inr sample_booking)) (PInt 45) = Inr (PInt 102)"
    "default_event_type_id (sample_calcom (Inr sample_booking)) (PInt 60) = Inr (PInt 103)"
    by code_simp+
  from default_event_type_selection [OF types ne, of 45] types ne run show ?thesis
    by simp
qed

subsection \<open>Available slots and listed events\<close>

lemma list_events_handler_range:
  assumes "truthy (dict_get a ''email'')"
  shows "list_events_handler tm cal (PDict a) =
     reraise_app ''Error listing events: ''
       (case cal_get_bookings cal (dict_get a ''email'') (fst (current_week tm))
               (snd (current_week tm)) (dict_get a ''status'') of
          Inl e \<Rightarrow> Inl e
        | Inr bookings \<Rightarrow>
            Inr (PDict [(''events'', PList (map (event_json tm) bookings)),
                        (''total'', PInt (int (length bookings)))]))"
  using assms by (simp add: list_events_handler_def Let_def split: prod.splits)

text \<open>
  Claim C10.  At 15:30 on Wednesday 12 March 2025 (day 739322) the range that \<^verbatim>\<open>_list_events\<close>
  computes starts on Monday 10 March (day 739320) at 15:30, not at 00:00, and ends on
  Sunday 16 March at 23:59:59.
\<close>

theorem list_events_week_start_keeps_time:
  "weekday (now sample_time) = 2
   \<and> current_week sample_time =
       (\<lparr>dt_ordinal = 739320, dt_hour = 15, dt_minute = 30, dt_second = 0,
         dt_microsecond = 0, dt_utcoffset = None\<rparr>,
        \<lparr>dt_ordinal = 739326, dt_hour = 23, dt_minute = 59, dt_second = 59,
         dt_microsecond = 0, dt_utcoffset = None\<rparr>)"
  by (simp add: current_week_def weekday_def sample_time_def plus_days_def replace_hms_def)

subsection \<open>Auto-booking trigger\<close>

lemma lower_append: "lower (xs @ ys) = lower xs @ lower ys"
  by (simp add: lower_def)

lemma sublist_lower_iff:
  "sublist k (lower m) \<longleftrightarrow> (\<exists>ps w ss. m = ps @ w @ ss \<and> lower w = k)"
proof
  assume "sublist k (lower m)"
  then obtain ps ss where "map lower_char m = ps @ k @ ss"
    by (auto simp: sublist_def lower_def)
  then have "\<exists>us vs. m = us @ vs \<and> ps = map lower_char us \<and> k @ ss = map lower_char vs"
    by (simp add: map_eq_append_conv)
  then obtain us vs where uv: "m = us @ vs" "k @ ss = map lower_char vs"
    by blast
  from uv(2) have "\<exists>w ss'. vs = w @ ss' \<and> k = map lower_char w \<and> ss = map lower_char ss'"
    by (simp add: append_eq_map_conv)
  then obtain w ss' where w: "vs = w @ ss'" "k = map lower_char w"
    by blast
  from uv(1) w show "\<exists>ps w ss. m = ps @ w @ ss \<and> lower w = k"
    unfolding lower_def by blast
next
  assume "\<exists>ps w ss. m = ps @ w @ ss \<and> lower w = k"
  then obtain ps w ss where "m = ps @ w @ ss" "lower w = k" by blast
  then have "lower m = lower ps @ k @ lower ss" by (simp add: lower_append)
  then show "sublist k (lower m)" unfolding sublist_def by blast
qed

lemma is_booking_request_iff:
  "is_booking_request message \<longleftrightarrow>
     (\<exists>keyword\<in>set booking_keywords. \<exists>ps w ss. message = ps @ w @ ss \<and> lower w = keyword)"
  by (simp add: is_booking_request_def list_ex_iff sublist_lower_iff)

lemma auto_book_triggered:
  "AutoBookingTriggered \<in> set (fst (auto_book lib tm re cal message result chat_response))"
  unfolding auto_book_def Let_def
  by (auto split: sum.splits pyval.splits option.splits prod.splits if_splits)

lemma echo_result_events:
  "fst (echo_result lib tm re cal request response) =
     (if (\<exists>fc calls results result.
            sr_function_calls response = Some (fc # calls)
          \<and> sr_function_results response = Some results
          \<and> map_of results (fc_name fc) = Some result
          \<and> fc_name fc = ''get_available_slots'')
        \<and> is_booking_request (req_message request)
      then fst (auto_book lib tm re cal (req_message request)
             (the (map_of (the (sr_function_results response)) ''get_available_slots''))
             ((initial_response request response)
                \<lparr>resp_response := py_str lib
                   (the (map_of (the (sr_function_results response)) ''get_available_slots''))\<rparr>))
      else [])"
  unfolding echo_result_def Let_def
  by (auto split: option.splits list.splits)

lemma echo_result_trigger:
  "AutoBookingTriggered \<in> set (fst (echo_result lib tm re cal request response)) \<longleftrightarrow>
     (\<exists>fc calls results result.
            sr_function_calls response = Some (fc # calls)
          \<and> sr_function_results response = Some results
          \<and> map_of results (fc_name fc) = Some result
          \<and> fc_name fc = ''get_available_slots'')
        \<and> is_booking_request (req_message request)"
  unfolding echo_result_events by (simp add: auto_book_triggered)

lemma echo_result_quiet:
  "\<not> is_booking_request (req_message request) \<Longrightarrow>
     fst (echo_result lib tm re cal request response) = []"
  unfolding echo_result_events by simp

lemma send_message_events:
  "fst (snd (send_message lib tm re cal hs svc request)) =
     (case snd (process_message lib hs svc (req_message request) (req_user_id request)
                  (req_session_id request)) of
        Inl e \<Rightarrow> []
      | Inr response \<Rightarrow> fst (echo_result lib tm re cal request response))"
  unfolding send_message_def
  by (auto split: prod.splits sum.splits)

text \<open>
  Claim C1.  The auto-booking code is entered (its first step is logged) if and only if the
  chat service answered with function calls of which the first, the one whose result is
  echoed, is \<^verbatim>\<open>get_available_slots\<close>, and the message holds, in any mix of capital and small
  letters, one of the words book, schedule, appointment, meeting, reserve.  For a message
  that holds none of them the endpoint does nothing of the auto-booking: no log line, no date
  extraction, no booking call.
\<close>

theorem auto_booking_trigger:
  "(AutoBookingTriggered \<in> set (fst (snd (send_message lib tm re cal hs svc request)))
     \<longleftrightarrow> (\<exists>response fc calls results result.
            snd (process_message lib hs svc (req_message request) (req_user_id request)
                   (req_session_id request)) = Inr response
          \<and> sr_function_calls response = Some (fc # calls)
          \<and> sr_function_results response = Some results
          \<and> map_of results (fc_name fc) = Some result
          \<and> fc_name fc = ''get_available_slots'')
        \<and> (\<exists>keyword\<in>set booking_keywords.
              \<exists>ps w ss. req_message request = ps @ w @ ss \<and> lower w = keyword))
   \<and> (\<not> (\<exists>keyword\<in>set booking_keywords.
              \<exists>ps w ss. req_message request = ps @ w @ ss \<and> lower w = keyword)
        \<longrightarrow> fst (snd (send_message lib tm re cal hs svc request)) = [])"
proof -
  let ?p = "snd (process_message lib hs svc (req_message request) (req_user_id request)
                   (req_session_id request))"
  have a: "AutoBookingTriggered \<in> set (fst (snd (send_message lib tm re cal hs svc request)))
     \<longleftrightarrow> (\<exists>response fc calls results result.
            ?p = Inr response
          \<and> sr_function_calls response = Some (fc # calls)
          \<and> sr_function_results response = Some results
          \<and> map_of results (fc_name fc) = Some result
          \<and> fc_name fc = ''get_available_slots'')
        \<and> is_booking_request (req_message request)"
  proof (cases ?p)
    case (Inl e)
    then show ?thesis by (simp add: send_message_events)
  next
    case (Inr response)
    then show ?thesis by (simp add: send_message_events echo_result_trigger)
  qed
  have b: "\<not> is_booking_request (req_message request)
        \<longrightarrow> fst (snd (send_message lib tm re cal hs svc request)) = []"
    by (cases ?p) (simp_all add: send_message_events echo_result_quiet)
  from a b show ?thesis unfolding is_booking_request_iff by blast
qed

theorem auto_booking_trigger_witness:
  "AutoBookingTriggered \<in> set (fst (snd (sample_run string_extraction (Inr sample_booking)
       booking_message (Some ''session456''))))
   \<and> (\<exists>keyword\<in>set booking_keywords.
         \<exists>ps w ss. booking_message = ps @ w @ ss \<and> lower w = keyword)
   \<and> \<not> (\<exists>keyword\<in>set booking_keywords.
           \<exists>ps w ss. question_message = ps @ w @ ss \<and> lower w = keyword)
   \<and> fst (snd (sample_run string_extraction (Inr sample_booking) question_message None)) = []"
proof -
  have t: "AutoBookingTriggered \<in> set (fst (snd (sample_run string_extraction
       (Inr sample_booking) booking_message (Some ''session456''))))"
    by code_simp
  have k: "is_booking_request booking_message"
    by code_simp
  have nk: "\<not> is_booking_request question_message"
    by code_simp
  have m: "req_message (sample_request question_message None) = question_message"
    by (simp add: sample_request_def)
  from auto_booking_trigger [of "sample_lib string_extraction" sample_time sample_re
      "sample_calcom (Inr sample_booking)"
      "chat_handlers (sample_lib string_extraction) sample_time (sample_calcom (Inr sample_booking))"
      sample_service "sample_request question_message None"]
    nk
  have q: "fst (snd (sample_run string_extraction (Inr sample_booking) question_message None)) = []"
    unfolding sample_run_def m is_booking_request_iff by blast
  from t k nk q show ?thesis
    unfolding is_booking_request_iff by blast
qed

subsection \<open>Response flags\<close>

lemma book_target_slot_ok:
  assumes "book_target_slot lib tm cal etid name email td tt slot cr = (evs, Inr r)"
  shows "\<exists>req booking. evs = [BookEventCalled req] \<and> cal_book_event cal req = Inr booking
           \<and> r = cr\<lparr>resp_response :=
                       ''Appointment booked successfully for '' @ name @ '' on ''
                       @ py_str lib td @ '' at '' @ tt @ ''. Booking ID: '' @ bk_uid booking,
                     resp_requires_action := False,
                     resp_action_details := None\<rparr>"
  using assms unfolding book_target_slot_def Let_def
  by (auto split: sum.splits)

lemma match_and_book_ok:
  assumes "match_and_book lib tm cal etid name email td tto slots cr = (evs, Inr r)"
  shows "(evs = [] \<and> r = cr)
       \<or> (\<exists>tt req booking. tto = Some tt \<and> evs = [BookEventCalled req]
             \<and> cal_book_event cal req = Inr booking
             \<and> r = cr\<lparr>resp_response :=
                       ''Appointment booked successfully for '' @ name @ '' on ''
                       @ py_str lib td @ '' at '' @ tt @ ''. Booking ID: '' @ bk_uid booking,
                     resp_requires_action := False,
                     resp_action_details := None\<rparr>)"
proof (cases tto)
  case None
  with assms show ?thesis by (simp add: match_and_book_def)
next
  case (Some tt)
  show ?thesis
  proof (cases "truthy td \<and> tt \<noteq> []")
    case False
    with assms Some show ?thesis by (auto simp: match_and_book_def)
  next
    case True
    show ?thesis
    proof (cases "slots_of slots")
      case (Inl e)
      with assms Some True show ?thesis by (simp add: match_and_book_def)
    next
      case (Inr slot_list)
      show ?thesis
      proof (cases "find_target_slot td tt slot_list")
        case (Inl e)
        with assms Some True Inr show ?thesis by (simp add: match_and_book_def)
      next
        case fts: (Inr found)
        show ?thesis
        proof (cases found)
          case None
          with assms Some True Inr fts show ?thesis by (simp add: match_and_book_def)
        next
          case found: (Some target_slot)
          show ?thesis
          proof (cases "target_slot = []")
            case True
            with assms Some \<open>truthy td \<and> tt \<noteq> []\<close> Inr fts found show ?thesis
              by (simp add: match_and_book_def)
          next
            case False
            with assms Some \<open>truthy td \<and> tt \<noteq> []\<close> Inr fts found
            have "book_target_slot lib tm cal etid name email td tt target_slot cr = (evs, Inr r)"
              by (simp add: match_and_book_def)
            from book_target_slot_ok [OF this] Some show ?thesis by blast
          qed
        qed
      qed
    qed
  qed
qed

lemma auto_book_ok:
  assumes "auto_book lib tm re cal msg result cr = (evs, Inr r)"
  shows "((\<forall>req. BookEventCalled req \<notin> set evs) \<and> r = cr)
       \<or> (\<exists>name_group td tt req booking.
             search_name re msg = Some name_group
           \<and> resolve_target re msg (parse_date_with_llm lib msg) = Inr (td, Some tt)
           \<and> evs = [AutoBookingTriggered, ParseDateCalled, BookEventCalled req]
           \<and> cal_book_event cal req = Inr booking
           \<and> r = cr\<lparr>resp_response :=
                       ''Appointment booked successfully for '' @ strip name_group @ '' on ''
                       @ py_str lib td @ '' at '' @ tt @ ''. Booking ID: '' @ bk_uid booking,
                     resp_requires_action := False,
                     resp_action_details := None\<rparr>)"
proof (cases "eval_str lib result")
  case (Inl e)
  with assms show ?thesis by (simp add: auto_book_def)
next
  case (Inr slots_data)
  show ?thesis
  proof (cases "\<exists>d. slots_data = PDict d")
    case False
    with assms Inr show ?thesis by (cases slots_data) (simp_all add: auto_book_def)
  next
    case True
    then obtain d where d: "slots_data = PDict d" by blast
    show ?thesis
    proof (cases "has_slots (dict_get d ''slots'')")
      case (Inl e)
      with assms Inr d show ?thesis by (simp add: auto_book_def)
    next
      case hs: (Inr available)
      show ?thesis
      proof (cases "available \<and> (\<exists>n e. search_name re msg = Some n \<and> search_email re msg = Some e)
                      \<and> truthy (dict_get d ''event_type_id'')")
        case False
        with assms Inr d hs show ?thesis
          by (auto simp: auto_book_def Let_def split: option.splits if_splits)
      next
        case True
        then obtain n e where ne: "search_name re msg = Some n" "search_email re msg = Some e"
          by blast
        show ?thesis
        proof (cases "resolve_target re msg (parse_date_with_llm lib msg)")
          case (Inl x)
          with assms Inr d hs True ne show ?thesis by (simp add: auto_book_def Let_def)
        next
          case rt: (Inr target)
          obtain td tto where target: "target = (td, tto)" by (cases target)
          obtain evs' out where mb: "match_and_book lib tm cal (dict_get d ''event_type_id'')
              (strip n) e td tto (dict_get d ''slots'') cr = (evs', out)"
            by (cases "match_and_book lib tm cal (dict_get d ''event_type_id'')
              (strip n) e td tto (dict_get d ''slots'') cr")
          from assms Inr d hs True ne rt target mb
          have evs: "evs = [AutoBookingTriggered, ParseDateCalled] @ evs'" and out: "out = Inr r"
            by (simp_all add: auto_book_def Let_def)
          from match_and_book_ok [OF mb [unfolded out]] show ?thesis
            using evs ne rt target by auto
        qed
      qed
    qed
  qed
qed

lemma echo_result_ok:
  assumes "echo_result lib tm re cal request response = (evs, Inr r)"
  shows "((\<exists>req. BookEventCalled req \<in> set evs) \<longrightarrow>
            \<not> resp_requires_action r \<and> resp_action_details r = None
          \<and> (\<exists>name_group td tt req booking.
                 search_name re (req_message request) = Some name_group
               \<and> resolve_target re (req_message request)
                    (parse_date_with_llm lib (req_message request)) = Inr (td, Some tt)
               \<and> BookEventCalled req \<in> set evs \<and> cal_book_event cal req = Inr booking
               \<and> resp_response r =
                    ''Appointment booked successfully for '' @ strip name_group @ '' on ''
                    @ py_str lib td @ '' at '' @ tt @ ''. Booking ID: '' @ bk_uid booking))
       \<and> (resp_requires_action r \<longleftrightarrow>
            (\<exists>fc calls. sr_function_calls response = Some (fc # calls))
            \<and> \<not> (\<exists>req. BookEventCalled req \<in> set evs))
       \<and> (\<not> (\<exists>req. BookEventCalled req \<in> set evs) \<longrightarrow>
            resp_action_details r =
              (case sr_function_calls response of
                 None \<Rightarrow> None
               | Some calls \<Rightarrow> (case calls of [] \<Rightarrow> None | fc # _ \<Rightarrow> Some fc)))"
proof (cases "(\<exists>fc calls results result.
            sr_function_calls response = Some (fc # calls)
          \<and> sr_function_results response = Some results
          \<and> map_of results (fc_name fc) = Some result
          \<and> fc_name fc = ''get_available_slots'')
        \<and> is_booking_request (req_message request)")
  case False
  with assms have "evs = []"
    and "resp_requires_action r = resp_requires_action (initial_response request response)"
    and "resp_action_details r = resp_action_details (initial_response request response)"
    unfolding echo_result_def Let_def
    by (auto split: option.splits list.splits if_splits)
  then show ?thesis
    by (auto simp: initial_response_def split: option.splits list.splits)
next
  case True
  then obtain fc calls results result where t:
    "sr_function_calls response = Some (fc # calls)"
    "sr_function_results response = Some results"
    "map_of results (fc_name fc) = Some result"
    "fc_name fc = ''get_available_slots''" "is_booking_request (req_message request)"
    by blast
  let ?cr = "(initial_response request response)\<lparr>resp_response := py_str lib result\<rparr>"
  from t(2,3) have "results \<noteq> []" by auto
  with assms t have ab: "auto_book lib tm re cal (req_message request) result ?cr = (evs, Inr r)"
    unfolding echo_result_def Let_def by simp
  have cr: "resp_requires_action ?cr" "resp_action_details ?cr = Some fc"
    using t(1) by (simp_all add: initial_response_def)
  from auto_book_ok [OF ab] show ?thesis
  proof
    assume "(\<forall>req. BookEventCalled req \<notin> set evs) \<and> r = ?cr"
    then show ?thesis using cr t(1) by auto
  next
    assume "\<exists>name_group td tt req booking.
             search_name re (req_message request) = Some name_group
           \<and> resolve_target re (req_message request)
                (parse_date_with_llm lib (req_message request)) = Inr (td, Some tt)
           \<and> evs = [AutoBookingTriggered, ParseDateCalled, BookEventCalled req]
           \<and> cal_book_event cal req = Inr booking
           \<and> r = ?cr\<lparr>resp_response :=
                       ''Appointment booked successfully for '' @ strip name_group @ '' on ''
                       @ py_str lib td @ '' at '' @ tt @ ''. Booking ID: '' @ bk_uid booking,
                     resp_requires_action := False,
                     resp_action_details := None\<rparr>"
    then obtain name_group td tt req booking where b:
      "search_name re (req_message request) = Some name_group"
      "resolve_target re (req_message request)
                (parse_date_with_llm lib (req_message request)) = Inr (td, Some tt)"
      "evs = [AutoBookingTriggered, ParseDateCalled, BookEventCalled req]"
      "cal_book_event cal req = Inr booking"
      "r = ?cr\<lparr>resp_response :=
                       ''Appointment booked successfully for '' @ strip name_group @ '' on ''
                       @ py_str lib td @ '' at '' @ tt @ ''. Booking ID: '' @ bk_uid booking,
                     resp_requires_action := False,
                     resp_action_details := None\<rparr>"
      by blast
    have booked: "\<exists>req. BookEventCalled req \<in> set evs" using b(3) by simp
    have flags: "\<not> resp_requires_action r" "resp_action_details r = None"
      "resp_response r = ''Appointment booked successfully for '' @ strip name_group @ '' on ''
                       @ py_str lib td @ '' at '' @ tt @ ''. Booking ID: '' @ bk_uid booking"
      using b(5) by simp_all
    have "BookEventCalled req \<in> set evs" using b(3) by simp
    with b(1,2,4) flags(3) have ex: "\<exists>name_group td tt req booking.
                 search_name re (req_message request) = Some name_group
               \<and> resolve_target re (req_message request)
                    (parse_date_with_llm lib (req_message request)) = Inr (td, Some tt)
               \<and> BookEventCalled req \<in> set evs \<and> cal_book_event cal req = Inr booking
               \<and> resp_response r =
                    ''Appointment booked successfully for '' @ strip name_group @ '' on ''
                    @ py_str lib td @ '' at '' @ tt @ ''. Booking ID: '' @ bk_uid booking"
      by blast
    from booked flags(1,2) ex show ?thesis by blast
  qed
qed

lemma send_message_ok:
  assumes "send_message lib tm re cal hs svc request = (svc', events, Inr chat_response)"
  shows "\<exists>response.
      snd (process_message lib hs svc (req_message request) (req_user_id request)
             (req_session_id request)) = Inr response
    \<and> echo_result lib tm re cal request response = (events, Inr chat_response)"
  using assms unfolding send_message_def
  by (auto split: prod.splits sum.splits)

text \<open>
  Claim C4, as amended.  In every response that the endpoint returns: when the auto-booking
  has booked (the booking call was made and answered), the response text is the
  confirmation with the attendee name, the target date and the target time,
  \<^verbatim>\<open>requires_action\<close> is false and \<^verbatim>\<open>action_details\<close> is cleared; \<^verbatim>\<open>requires_action\<close> is true
  if and only if the chat service issued at least one function call and the auto-booking did
  not book; and when it did not book, \<^verbatim>\<open>action_details\<close> is the first function call, if
  there is one.
\<close>

theorem response_flags:
  assumes "send_message lib tm re cal hs svc request = (svc', events, Inr chat_response)"
  shows "\<exists>response.
      snd (process_message lib hs svc (req_message request) (req_user_id request)
             (req_session_id request)) = Inr response
    \<and> ((\<exists>req. BookEventCalled req \<in> set events) \<longrightarrow>
            \<not> resp_requires_action chat_response \<and> resp_action_details chat_response = None
          \<and> (\<exists>name_group target_date target_time req booking.
                 search_name re (req_message request) = Some name_group
               \<and> resolve_target re (req_message request)
                    (parse_date_with_llm lib (req_message request))
                    = Inr (target_date, Some target_time)
               \<and> BookEventCalled req \<in> set events \<and> cal_book_event cal req = Inr booking
               \<and> resp_response chat_response =
                    ''Appointment booked successfully for '' @ strip name_group @ '' on ''
                    @ py_str lib target_date @ '' at '' @ target_time
                    @ ''. Booking ID: '' @ bk_uid booking))
    \<and> (resp_requires_action chat_response \<longleftrightarrow>
            (\<exists>fc calls. sr_function_calls response = Some (fc # calls))
            \<and> \<not> (\<exists>req. BookEventCalled req \<in> set events))
    \<and> (\<not> (\<exists>req. BookEventCalled req \<in> set events) \<longrightarrow>
            resp_action_details chat_response =
              (case sr_function_calls response of
                 None \<Rightarrow> None
               | Some calls \<Rightarrow> (case calls of [] \<Rightarrow> None | fc # _ \<Rightarrow> Some fc)))"
proof -
  from send_message_ok [OF assms] obtain response where
    p: "snd (process_message lib hs svc (req_message request) (req_user_id request)
             (req_session_id request)) = Inr response"
    and e: "echo_result lib tm re cal request response = (events, Inr chat_response)"
    by blast
  from echo_result_ok [OF e] p show ?thesis by blast
qed

theorem response_flags_witness:
  "fst (snd (sample_run later_extraction (Inr sample_booking) later_message
       (Some ''session456''))) = [AutoBookingTriggered, ParseDateCalled]
   \<and> map_sum id resp_requires_action
        (snd (snd (sample_run later_extraction (Inr sample_booking) later_message
           (Some ''session456'')))) = Inr True
   \<and> map_sum id resp_action_details
        (snd (snd (sample_run later_extraction (Inr sample_booking) later_message
           (Some ''session456'')))) = Inr (Some sample_call)
   \<and> map_sum id sr_function_calls
        (snd (process_message (sample_lib later_extraction)
           (chat_handlers (sample_lib later_extraction) sample_time
              (sample_calcom (Inr sample_booking)))
           sample_service later_message (Some ''user123'') (Some ''session456'')))
       = Inr (Some [sample_call])"
proof -
  let ?run = "sample_run later_extraction (Inr sample_booking) later_message (Some ''session456'')"
  let ?out = "\<lparr>resp_response =
               (case get_available_slots_handler (sample_lib later_extraction) sample_time
                       (sample_calcom (Inr sample_booking)) (fc_arguments sample_call) of
                  Inr result \<Rightarrow> sample_repr result
                | Inl e \<Rightarrow> []),
             resp_session_id = ''session456'',
             resp_requires_action = True,
             resp_action_details = Some sample_call\<rparr>"
  have run: "snd ?run = ([AutoBookingTriggered, ParseDateCalled], Inr ?out)"
    by code_simp
  have calls: "map_sum id sr_function_calls
        (snd (process_message (sample_lib later_extraction)
           (chat_handlers (sample_lib later_extraction) sample_time
              (sample_calcom (Inr sample_booking)))
           sample_service later_message (Some ''user123'') (Some ''session456'')))
       = Inr (Some [sample_call])"
    by code_simp
  from run have full: "send_message (sample_lib later_extraction) sample_time sample_re
      (sample_calcom (Inr sample_booking))
      (chat_handlers (sample_lib later_extraction) sample_time (sample_calcom (Inr sample_booking)))
      sample_service (sample_request later_message (Some ''session456''))
      = (fst ?run, [AutoBookingTriggered, ParseDateCalled], Inr ?out)"
    unfolding sample_run_def by (metis prod.collapse)
  have parts: "fst (snd ?run) = [AutoBookingTriggered, ParseDateCalled]"
    "map_sum id resp_requires_action (snd (snd ?run)) = Inr True"
    "map_sum id resp_action_details (snd (snd ?run)) = Inr (Some sample_call)"
    by (simp_all add: run)
  from response_flags [OF full] parts calls show ?thesis
    by blast
qed

text \<open>
  The claim as stated says that \<^verbatim>\<open>action_details\<close> echoes the first function call whenever
  there is one.  After a booking by the auto-booking there is a function call, and
  \<^verbatim>\<open>action_details\<close> is empty.
\<close>

theorem action_details_cleared_counterexample:
  "snd (snd (sample_run string_extraction (Inr sample_booking) booking_message
       (Some ''session456'')))
     = Inr \<lparr>resp_response =
              ''Appointment booked successfully for Jane Doe on 2025-03-14 at 14:30:00. Booking ID: bk_7gXq2'',
            resp_session_id = ''session456'',
            resp_requires_action = False,
            resp_action_details = None\<rparr>
   \<and> map_sum id sr_function_calls
        (snd (process_message (sample_lib string_extraction)
           (chat_handlers (sample_lib string_extraction) sample_time
              (sample_calcom (Inr sample_booking)))
           sample_service booking_message (Some ''user123'') (Some ''session456'')))
       = Inr (Some [sample_call])"
  by code_simp

subsection \<open>Alternative slots\<close>

lemma add_days_midnight:
  "1 \<le> ord + n \<Longrightarrow> ord + n \<le> max_ordinal \<Longrightarrow>
     add_days (midnight ord) n = Inr (midnight (ord + n))"
  by (simp add: add_days_def plus_days_def midnight_def)

lemma get_available_slots_body_empty:
  assumes parsed: "strptime_ymd tm s = Inr ord"
    and range: "1 \<le> ord" "ord + 15 \<le> max_ordinal"
    and primary: "cal_get_available_slots cal event_type_id (midnight ord) (midnight (ord + 7))
           timezone = Inr []"
  shows "get_available_slots_body lib tm cal (PStr s) event_type_id timezone =
     (case cal_get_available_slots cal event_type_id (midnight (ord + 1)) (midnight (ord + 15))
             (PStr ''America/Los_Angeles'') of
        Inl e \<Rightarrow> Inl e
      | Inr alternative_slots \<Rightarrow>
          (case cal_get_event_types cal of
             Inl e \<Rightarrow> Inl e
           | Inr event_types \<Rightarrow>
               Inr (PDict
                 [(''slots'', PList []),
                  (''message'', PStr (''No available slots found for ''
                      @ event_type_name lib event_types event_type_id @ '' on '' @ s @ ''.'')),
                  (''alternative_slots'',
                     PList (map (slot_json tm) (take 10 alternative_slots))),
                  (''event_type_id'', event_type_id),
                  (''event_type_name'',
                     PStr (event_type_name lib event_types event_type_id))])))"
proof -
  have e7: "add_days (midnight ord) 7 = Inr (midnight (ord + 7))"
    using range by (intro add_days_midnight) simp_all
  have e1: "add_days (midnight ord) 1 = Inr (midnight (ord + 1))"
    using range by (intro add_days_midnight) simp_all
  have "add_days (midnight (ord + 1)) 14 = Inr (midnight (ord + 1 + 14))"
    using range by (intro add_days_midnight) simp_all
  then have e14: "add_days (midnight (ord + 1)) 14 = Inr (midnight (ord + 15))"
    by (simp add: add.assoc)
  show ?thesis
    unfolding get_available_slots_body_def Let_def
    by (simp only: pyval.case parsed sum.case e7 e1 e14 primary) simp
qed

lemma get_available_slots_handler_unfold:
  assumes "dict_get a ''date'' = PStr s" "s \<noteq> []"
    and "(if \<not> truthy (dict_get a ''event_type_id'')
          then default_event_type_id cal (dict_get_default a ''duration'' (PInt 30))
          else Inr (dict_get a ''event_type_id'')) = Inr event_type_id"
  shows "get_available_slots_handler lib tm cal (PDict a) =
           reraise_app ''Error getting available slots: ''
             (get_available_slots_body lib tm cal (PStr s) event_type_id
                (dict_get_default a ''timezone'' (PStr ''America/Los_Angeles'')))"
  using assms by (simp add: get_available_slots_handler_def Let_def)

text \<open>
  Claim C6, as amended.  Let a call of \<^verbatim>\<open>_get_available_slots\<close> have a date that parses and is
  no later than 9999-12-16, an event type (given or chosen by default), and let the provider
  answer the primary query, which covers the 7 days from the requested date, with no slot.
  Then the handler queries the provider again for the window from the day after the requested
  date to 14 days later, in the default time zone: when that query raises, the handler raises
  its exception; when it and the following \<^verbatim>\<open>get_event_types\<close> answer, the handler returns;
  and whatever it returns holds under \<^verbatim>\<open>alternative_slots\<close> the first 10 slots of the answer
  to that query, at most 10 entries.
\<close>

theorem alternative_slots_on_empty_window:
  assumes date: "dict_get a ''date'' = PStr s" "s \<noteq> []"
    and parsed: "strptime_ymd tm s = Inr ord"
    and range: "1 \<le> ord" "ord + 15 \<le> max_ordinal"
    and etid: "(if \<not> truthy (dict_get a ''event_type_id'')
                then default_event_type_id cal (dict_get_default a ''duration'' (PInt 30))
                else Inr (dict_get a ''event_type_id'')) = Inr event_type_id"
    and primary: "cal_get_available_slots cal event_type_id (midnight ord) (midnight (ord + 7))
                    (dict_get_default a ''timezone'' (PStr ''America/Los_Angeles'')) = Inr []"
  shows "(\<forall>result. get_available_slots_handler lib tm cal (PDict a) = Inr result \<longrightarrow>
            (\<exists>alternative_slots d.
                result = PDict d
              \<and> cal_get_available_slots cal event_type_id (midnight (ord + 1))
                    (midnight (ord + 15)) (PStr ''America/Los_Angeles'') = Inr alternative_slots
              \<and> map_of d ''alternative_slots''
                    = Some (PList (map (slot_json tm) (take 10 alternative_slots)))
              \<and> length (map (slot_json tm) (take 10 alternative_slots)) \<le> 10))
    \<and> (\<forall>alternative_slots event_types.
            cal_get_available_slots cal event_type_id (midnight (ord + 1))
              (midnight (ord + 15)) (PStr ''America/Los_Angeles'') = Inr alternative_slots
          \<and> cal_get_event_types cal = Inr event_types \<longrightarrow>
            (\<exists>result. get_available_slots_handler lib tm cal (PDict a) = Inr result))
    \<and> (\<forall>e. cal_get_available_slots cal event_type_id (midnight (ord + 1))
              (midnight (ord + 15)) (PStr ''America/Los_Angeles'') = Inl e \<longrightarrow>
            get_available_slots_handler lib tm cal (PDict a)
              = Inl (AppException (''Error getting available slots: '' @ str_exn e)))"
proof -
  note h = get_available_slots_handler_unfold [OF date etid, of lib tm]
  note b = get_available_slots_body_empty [OF parsed range primary, of lib]
  have a: "\<forall>result. get_available_slots_handler lib tm cal (PDict a) = Inr result \<longrightarrow>
            (\<exists>alternative_slots d.
                result = PDict d
              \<and> cal_get_available_slots cal event_type_id (midnight (ord + 1))
                    (midnight (ord + 15)) (PStr ''America/Los_Angeles'') = Inr alternative_slots
              \<and> map_of d ''alternative_slots''
                    = Some (PList (map (slot_json tm) (take 10 alternative_slots)))
              \<and> length (map (slot_json tm) (take 10 alternative_slots)) \<le> 10)"
    unfolding h b by (auto simp: reraise_app_def split: sum.splits)
  have c: "\<forall>alternative_slots event_types.
            cal_get_available_slots cal event_type_id (midnight (ord + 1))
              (midnight (ord + 15)) (PStr ''America/Los_Angeles'') = Inr alternative_slots
          \<and> cal_get_event_types cal = Inr event_types \<longrightarrow>
            (\<exists>result. get_available_slots_handler lib tm cal (PDict a) = Inr result)"
    unfolding h b by (auto simp: reraise_app_def)
  have d: "\<forall>e. cal_get_available_slots cal event_type_id (midnight (ord + 1))
              (midnight (ord + 15)) (PStr ''America/Los_Angeles'') = Inl e \<longrightarrow>
            get_available_slots_handler lib tm cal (PDict a)
              = Inl (AppException (''Error getting available slots: '' @ str_exn e))"
    unfolding h b by (auto simp: reraise_app_def)
  from a c d show ?thesis by blast
qed

theorem alternative_slots_on_empty_window_witness:
  "dict_get [(''date'', PStr ''2025-03-05'')] ''date'' = PStr ''2025-03-05''
   \<and> ''2025-03-05'' \<noteq> []
   \<and> strptime_ymd sample_time ''2025-03-05'' = Inr 739315
   \<and> (1::int) \<le> 739315 \<and> 739315 + 15 \<le> max_ordinal
   \<and> default_event_type_id (sample_calcom (Inr sample_booking)) (PInt 30) = Inr (PInt 102)
   \<and> cal_get_available_slots (sample_calcom (Inr sample_booking)) (PInt 102)
        (midnight 739315) (midnight (739315 + 7)) (PStr ''America/Los_Angeles'') = Inr []
   \<and> length (case cal_get_available_slots (sample_calcom (Inr sample_booking)) (PInt 102)
        (midnight (739315 + 1)) (midnight (739315 + 15)) (PStr ''America/Los_Angeles'') of
          Inr alternative_slots \<Rightarrow> alternative_slots | Inl e \<Rightarrow> []) = 14
   \<and> (\<exists>result d items.
         get_available_slots_handler (sample_lib string_extraction) sample_time
           (sample_calcom (Inr sample_booking)) (PDict [(''date'', PStr ''2025-03-05'')])
           = Inr result
       \<and> result = PDict d \<and> map_of d ''alternative_slots'' = Some (PList items)
       \<and> length items = 10)"
proof -
  let ?a = "[(''date'', PStr ''2025-03-05'')]"
  let ?cal = "sample_calcom (Inr sample_booking)"
  have date: "dict_get ?a ''date'' = PStr ''2025-03-05''" "''2025-03-05'' \<noteq> []"
    by (simp_all add: dict_get_def dict_get_default_def)
  have parsed: "strptime_ymd sample_time ''2025-03-05'' = Inr 739315"
    by (simp add: sample_time_def)
  have range: "(1::int) \<le> 739315" "739315 + 15 \<le> max_ordinal"
    by (simp_all add: max_ordinal_def)
  have dflt: "default_event_type_id ?cal (PInt 30) = Inr (PInt 102)"
    by code_simp
  have etid: "(if \<not> truthy (dict_get ?a ''event_type_id'')
                then default_event_type_id ?cal (dict_get_default ?a ''duration'' (PInt 30))
                else Inr (dict_get ?a ''event_type_id'')) = Inr (PInt 102)"
    using dflt by (simp add: dict_get_def dict_get_default_def)
  have primary: "cal_get_available_slots ?cal (PInt 102) (midnight 739315) (midnight (739315 + 7))
                    (PStr ''America/Los_Angeles'') = Inr []"
    by code_simp
  have primary': "cal_get_available_slots ?cal (PInt 102) (midnight 739315) (midnight (739315 + 7))
                    (dict_get_default ?a ''timezone'' (PStr ''America/Los_Angeles'')) = Inr []"
    using primary by (simp add: dict_get_default_def)
  have secondary: "length (case cal_get_available_slots ?cal (PInt 102)
        (midnight (739315 + 1)) (midnight (739315 + 15)) (PStr ''America/Los_Angeles'') of
          Inr alternative_slots \<Rightarrow> alternative_slots | Inl e \<Rightarrow> []) = 14"
    by code_simp
  have types: "cal_get_event_types ?cal = Inr sample_event_types"
    by (simp add: sample_calcom_def)
  note main = alternative_slots_on_empty_window [OF date parsed range etid primary',
      of "sample_lib string_extraction"]
  obtain alts where alts: "cal_get_available_slots ?cal (PInt 102)
        (midnight (739315 + 1)) (midnight (739315 + 15)) (PStr ''America/Los_Angeles'') = Inr alts"
    by (simp add: sample_calcom_def)
  with secondary have len: "length alts = 14" by simp
  from main alts types obtain result where
    r: "get_available_slots_handler (sample_lib string_extraction) sample_time ?cal (PDict ?a)
          = Inr result"
    by blast
  with main obtain alts' d where d: "result = PDict d"
    "cal_get_available_slots ?cal (PInt 102)
        (midnight (739315 + 1)) (midnight (739315 + 15)) (PStr ''America/Los_Angeles'') = Inr alts'"
    "map_of d ''alternative_slots'' = Some (PList (map (slot_json sample_time) (take 10 alts')))"
    by blast
  from d(2) alts have "alts' = alts" by simp
  with d len have "map_of d ''alternative_slots''
       = Some (PList (map (slot_json sample_time) (take 10 alts)))
     \<and> length (map (slot_json sample_time) (take 10 alts)) = 10" by simp
  with r d(1) have ex: "\<exists>result d items.
         get_available_slots_handler (sample_lib string_extraction) sample_time ?cal (PDict ?a)
           = Inr result
       \<and> result = PDict d \<and> map_of d ''alternative_slots'' = Some (PList items)
       \<and> length items = 10" by blast
  from date parsed range dflt primary secondary ex show ?thesis by blast
qed

text \<open>
  The claim as stated speaks of the requested date yielding no slot.  On a request for
  2025-03-10 (day 739320), a date on which the provider has no slot while it has slots later
  in the same week, the handler returns those slots and no \<^verbatim>\<open>alternative_slots\<close>.
\<close>

theorem requested_date_empty_counterexample:
  "cal_get_available_slots (sample_calcom (Inr sample_booking)) (PInt 102)
        (midnight 739320) (midnight 739321) (PStr ''America/Los_Angeles'') = Inr []
   \<and> (case get_available_slots_handler (sample_lib string_extraction) sample_time
             (sample_calcom (Inr sample_booking)) (PDict [(''date'', PStr ''2025-03-10'')]) of
         Inr (PDict d) \<Rightarrow>
           map fst d = [''slots'', ''event_type_id'', ''event_type_name'']
           \<and> map_of d ''alternative_slots'' = None
           \<and> (case dict_get d ''slots'' of PList items \<Rightarrow> length items = 2 | _ \<Rightarrow> False)
       | _ \<Rightarrow> False)"
  by code_simp

subsection \<open>Slot resolution\<close>

lemma py_eq_PStr: "py_eq v (PStr d) \<longleftrightarrow> v = PStr d"
  by (cases v) (auto simp: int_eq_def)

lemma filter_find:
  "(case filter P xs of [] \<Rightarrow> None | x # _ \<Rightarrow> Some x) = find P xs"
  by (induction xs) auto

lemma exact_slot_find:
  assumes "\<forall>slot\<in>set slots. \<exists>s. dict_get slot ''start'' = PStr s"
  shows "exact_slot (PStr d) t slots =
           Inr (find (\<lambda>slot. dict_get slot ''date'' = PStr d
                        \<and> (\<exists>s. dict_get slot ''start'' = PStr s \<and> sublist t s)) slots)"
  using assms
proof (induction slots)
  case Nil
  then show ?case by simp
next
  case (Cons slot slots)
  then obtain s where s: "dict_get slot ''start'' = PStr s" by auto
  from Cons have ih: "exact_slot (PStr d) t slots =
           Inr (find (\<lambda>slot. dict_get slot ''date'' = PStr d
                        \<and> (\<exists>s. dict_get slot ''start'' = PStr s \<and> sublist t s)) slots)"
    by simp
  show ?case by (simp add: py_eq_PStr s str_in_def ih)
qed

lemma exact_slot_no_date:
  assumes "\<forall>slot\<in>set slots. dict_get slot ''date'' \<noteq> PStr d"
  shows "exact_slot (PStr d) t slots = Inr None"
  using assms by (induction slots) (simp_all add: py_eq_PStr)

lemma find_target_slot_find:
  assumes "\<forall>slot\<in>set slots. \<exists>s. dict_get slot ''start'' = PStr s"
  shows "find_target_slot (PStr d) t slots =
           Inr (case find (\<lambda>slot. dict_get slot ''date'' = PStr d
                          \<and> (\<exists>s. dict_get slot ''start'' = PStr s \<and> sublist t s)) slots of
                  Some slot \<Rightarrow> Some slot
                | None \<Rightarrow> find (\<lambda>slot. dict_get slot ''date'' = PStr d) slots)"
proof -
  have "(case filter (\<lambda>slot. py_eq (dict_get slot ''date'') (PStr d)) slots of
           [] \<Rightarrow> Inr None | target_slot # _ \<Rightarrow> Inr (Some target_slot))
        = (Inr (find (\<lambda>slot. dict_get slot ''date'' = PStr d) slots)
             :: exn + (string \<times> pyval) list option)"
    unfolding py_eq_PStr
    by (simp add: filter_find [symmetric] split: list.splits)
  then show ?thesis
    unfolding find_target_slot_def exact_slot_find [OF assms]
    by (simp split: option.splits)
qed

lemma find_target_slot_no_date:
  assumes "\<forall>slot\<in>set slots. dict_get slot ''date'' \<noteq> PStr d"
  shows "find_target_slot (PStr d) t slots = Inr None"
proof -
  from assms have "filter (\<lambda>slot. py_eq (dict_get slot ''date'') (PStr d)) slots = []"
    by (simp add: py_eq_PStr filter_empty_conv)
  then show ?thesis
    by (simp add: find_target_slot_def exact_slot_no_date [OF assms])
qed

lemma slot_dicts_map: "slot_dicts (map PDict slots) = Some slots"
  by (induction slots) simp_all

lemma match_and_book_no_date:
  assumes "\<forall>slot\<in>set slots. dict_get slot ''date'' \<noteq> PStr d"
  shows "match_and_book lib tm cal event_type_id name email (PStr d) target_time
           (PList (map PDict slots)) chat_response = ([], Inr chat_response)"
  by (simp add: match_and_book_def slots_of_def slot_dicts_map
        find_target_slot_no_date [OF assms] split: option.splits)

lemma auto_book_no_date:
  assumes "dict_get result ''slots'' = PList (map PDict slots)" "slots \<noteq> []"
    and "truthy (dict_get result ''event_type_id'')"
    and "search_name re message = Some name_group" "search_email re message = Some email"
    and "resolve_target re message (parse_date_with_llm lib message)
           = Inr (PStr d, target_time)"
    and "\<forall>slot\<in>set slots. dict_get slot ''date'' \<noteq> PStr d"
  shows "auto_book lib tm re cal message (PDict result) chat_response
           = ([AutoBookingTriggered, ParseDateCalled], Inr chat_response)"
  using assms(1-6)
  by (simp add: auto_book_def eval_str_def has_slots_def Let_def
        match_and_book_no_date [OF assms(7)])

lemma find_target_slot_nonempty:
  assumes "find_target_slot (PStr d) t slots = Inr (Some slot)"
  shows "slot \<noteq> []"
proof -
  have "dict_get slot ''date'' = PStr d"
  proof (cases "exact_slot (PStr d) t slots")
    case (Inl e)
    with assms show ?thesis by (simp add: find_target_slot_def)
  next
    case (Inr found)
    have ex: "exact_slot (PStr d) t xs = Inr (Some x) \<Longrightarrow> dict_get x ''date'' = PStr d" for xs x
      by (induction xs) (auto simp: py_eq_PStr split: if_splits sum.splits)
    show ?thesis
    proof (cases found)
      case (Some x)
      with assms Inr have "x = slot" by (simp add: find_target_slot_def)
      with ex Inr Some show ?thesis by blast
    next
      case None
      with assms Inr obtain rest where
        "filter (\<lambda>slot. py_eq (dict_get slot ''date'') (PStr d)) slots = slot # rest"
        by (auto simp: find_target_slot_def split: list.splits)
      then have "slot \<in> set (filter (\<lambda>slot. py_eq (dict_get slot ''date'') (PStr d)) slots)"
        by simp
      then show ?thesis by (simp add: py_eq_PStr)
    qed
  qed
  then show ?thesis by (auto simp: dict_get_def dict_get_default_def)
qed

lemma match_and_book_selected:
  assumes "d \<noteq> []" "t \<noteq> []"
    and sel: "find_target_slot (PStr d) t slots = Inr (Some slot)"
    and st: "fromisoformat_val tm (dict_get slot ''start'') = Inr start_time"
    and en: "fromisoformat_val tm (dict_get slot ''end'') = Inr end_time"
  shows "match_and_book lib tm cal event_type_id name email (PStr d) (Some t)
           (PList (map PDict slots)) chat_response =
     ([BookEventCalled
         \<lparr>br_event_type_id = event_type_id, br_start_time = start_time,
          br_end_time = end_time, br_name = PStr name, br_email = PStr email,
          br_title = PStr (''Appointment with '' @ name),
          br_description = PStr (''Scheduled appointment for '' @ name),
          br_timezone = PStr ''America/Los_Angeles'', br_language = PStr ''en''\<rparr>],
      (case cal_book_event cal
              \<lparr>br_event_type_id = event_type_id, br_start_time = start_time,
               br_end_time = end_time, br_name = PStr name, br_email = PStr email,
               br_title = PStr (''Appointment with '' @ name),
               br_description = PStr (''Scheduled appointment for '' @ name),
               br_timezone = PStr ''America/Los_Angeles'', br_language = PStr ''en''\<rparr> of
         Inl e \<Rightarrow> Inl e
       | Inr booking \<Rightarrow>
           Inr (chat_response
             \<lparr>resp_response :=
                 ''Appointment booked successfully for '' @ name @ '' on '' @ d @ '' at '' @ t
                 @ ''. Booking ID: '' @ bk_uid booking,
              resp_requires_action := False,
              resp_action_details := None\<rparr>)))"
  using assms(1,2) find_target_slot_nonempty [OF sel]
  by (simp add: match_and_book_def slots_of_def slot_dicts_map sel book_target_slot_def st en
        Let_def py_str_def split: sum.splits)

lemma auto_book_selected:
  assumes "dict_get result ''slots'' = PList (map PDict slots)" "slots \<noteq> []"
    and "truthy (dict_get result ''event_type_id'')"
    and "search_name re message = Some name_group" "search_email re message = Some email"
    and "resolve_target re message (parse_date_with_llm lib message) = Inr (PStr d, Some t)"
    and "d \<noteq> []" "t \<noteq> []"
    and sel: "find_target_slot (PStr d) t slots = Inr (Some slot)"
    and st: "fromisoformat_val tm (dict_get slot ''start'') = Inr start_time"
    and en: "fromisoformat_val tm (dict_get slot ''end'') = Inr end_time"
  shows "auto_book lib tm re cal message (PDict result) chat_response =
     ([AutoBookingTriggered, ParseDateCalled,
       BookEventCalled
         \<lparr>br_event_type_id = dict_get result ''event_type_id'', br_start_time = start_time,
          br_end_time = end_time, br_name = PStr (strip name_group), br_email = PStr email,
          br_title = PStr (''Appointment with '' @ strip name_group),
          br_description = PStr (''Scheduled appointment for '' @ strip name_group),
          br_timezone = PStr ''America/Los_Angeles'', br_language = PStr ''en''\<rparr>],
      (case cal_book_event cal
              \<lparr>br_event_type_id = dict_get result ''event_type_id'',
               br_start_time = start_time,
               br_end_time = end_time, br_name = PStr (strip name_group),
               br_email = PStr email,
               br_title = PStr (''Appointment with '' @ strip name_group),
               br_description = PStr (''Scheduled appointment for '' @ strip name_group),
               br_timezone = PStr ''America/Los_Angeles'', br_language = PStr ''en''\<rparr> of
         Inl e \<Rightarrow> Inl e
       | Inr booking \<Rightarrow>
           Inr (chat_response
             \<lparr>resp_response :=
                 ''Appointment booked successfully for '' @ strip name_group @ '' on '' @ d
                 @ '' at '' @ t @ ''. Booking ID: '' @ bk_uid booking,
              resp_requires_action := False,
              resp_action_details := None\<rparr>)))"
  using assms(1-6)
  by (simp add: auto_book_def eval_str_def has_slots_def Let_def
        match_and_book_selected [OF assms(7,8) sel st en])

text \<open>
  Claim C2.  On a list of slots whose starts are strings, the slot chosen for the target date
  \<open>d\<close> and the target time \<open>t\<close> is the first slot, in list order, whose date equals \<open>d\<close> and
  whose start contains \<open>t\<close>; when there is none, the first slot whose date equals \<open>d\<close>; and
  none otherwise.  When the auto-booking has resolved the name, the email, the event type,
  the target date and the target time on a non-empty list of slots: if that rule chooses a
  slot, the booking call is made with the start and the end of exactly that slot, and its
  answer decides the outcome (the confirmation, or the exception of the provider); if no slot
  has the target date, no booking call is made, the response is the text of the slots
  result, \<^verbatim>\<open>requires_action\<close> is true and the first function call is still echoed.
\<close>

theorem slot_resolution:
  "((\<forall>slot\<in>set slots. \<exists>s. dict_get slot ''start'' = PStr s) \<longrightarrow>
      find_target_slot (PStr d) t slots =
        Inr (case find (\<lambda>slot. dict_get slot ''date'' = PStr d
                          \<and> (\<exists>s. dict_get slot ''start'' = PStr s \<and> sublist t s)) slots of
               Some slot \<Rightarrow> Some slot
             | None \<Rightarrow> find (\<lambda>slot. dict_get slot ''date'' = PStr d) slots))
   \<and> (sr_function_calls response = Some (fc # calls)
      \<and> fc_name fc = ''get_available_slots''
      \<and> sr_function_results response = Some results
      \<and> map_of results ''get_available_slots'' = Some (PDict result)
      \<and> is_booking_request (req_message request)
      \<and> dict_get result ''slots'' = PList (map PDict slots) \<and> slots \<noteq> []
      \<and> truthy (dict_get result ''event_type_id'')
      \<and> search_name re (req_message request) = Some name_group
      \<and> search_email re (req_message request) = Some email
      \<and> resolve_target re (req_message request)
           (parse_date_with_llm lib (req_message request)) = Inr (PStr d, Some t)
      \<and> (\<forall>slot\<in>set slots. dict_get slot ''date'' \<noteq> PStr d)
      \<longrightarrow> echo_result lib tm re cal request response
            = ([AutoBookingTriggered, ParseDateCalled],
               Inr \<lparr>resp_response = py_repr lib (PDict result),
                    resp_session_id = resp_session_id (initial_response request response),
                    resp_requires_action = True,
                    resp_action_details = Some fc\<rparr>))
   \<and> (sr_function_calls response = Some (fc # calls)
      \<and> fc_name fc = ''get_available_slots''
      \<and> sr_function_results response = Some results
      \<and> map_of results ''get_available_slots'' = Some (PDict result)
      \<and> is_booking_request (req_message request)
      \<and> dict_get result ''slots'' = PList (map PDict slots) \<and> slots \<noteq> []
      \<and> truthy (dict_get result ''event_type_id'')
      \<and> search_name re (req_message request) = Some name_group
      \<and> search_email re (req_message request) = Some email
      \<and> resolve_target re (req_message request)
           (parse_date_with_llm lib (req_message request)) = Inr (PStr d, Some t)
      \<and> d \<noteq> [] \<and> t \<noteq> []
      \<and> (\<forall>slot\<in>set slots. \<exists>s. dict_get slot ''start'' = PStr s)
      \<and> (case find (\<lambda>slot. dict_get slot ''date'' = PStr d
                          \<and> (\<exists>s. dict_get slot ''start'' = PStr s \<and> sublist t s)) slots of
            Some slot \<Rightarrow> Some slot
          | None \<Rightarrow> find (\<lambda>slot. dict_get slot ''date'' = PStr d) slots) = Some chosen
      \<and> fromisoformat_val tm (dict_get chosen ''start'') = Inr start_time
      \<and> fromisoformat_val tm (dict_get chosen ''end'') = Inr end_time
      \<longrightarrow> echo_result lib tm re cal request response
            = ([AutoBookingTriggered, ParseDateCalled,
                BookEventCalled
                  \<lparr>br_event_type_id = dict_get result ''event_type_id'',
                   br_start_time = start_time, br_end_time = end_time,
                   br_name = PStr (strip name_group), br_email = PStr email,
                   br_title = PStr (''Appointment with '' @ strip name_group),
                   br_description = PStr (''Scheduled appointment for '' @ strip name_group),
                   br_timezone = PStr ''America/Los_Angeles'', br_language = PStr ''en''\<rparr>],
               (case cal_book_event cal
                       \<lparr>br_event_type_id = dict_get result ''event_type_id'',
                        br_start_time = start_time, br_end_time = end_time,
                        br_name = PStr (strip name_group), br_email = PStr email,
                        br_title = PStr (''Appointment with '' @ strip name_group),
                        br_description =
                          PStr (''Scheduled appointment for '' @ strip name_group),
                        br_timezone = PStr ''America/Los_Angeles'',
                        br_language = PStr ''en''\<rparr> of
                  Inl e \<Rightarrow> Inl e
                | Inr booking \<Rightarrow>
                    Inr \<lparr>resp_response =
                           ''Appointment booked successfully for '' @ strip name_group
                           @ '' on '' @ d @ '' at '' @ t @ ''. Booking ID: '' @ bk_uid booking,
                         resp_session_id =
                           resp_session_id (initial_response request response),
                         resp_requires_action = False,
                         resp_action_details = None\<rparr>)))"
proof -
  have a: "(\<forall>slot\<in>set slots. \<exists>s. dict_get slot ''start'' = PStr s) \<longrightarrow>
      find_target_slot (PStr d) t slots =
        Inr (case find (\<lambda>slot. dict_get slot ''date'' = PStr d
                          \<and> (\<exists>s. dict_get slot ''start'' = PStr s \<and> sublist t s)) slots of
               Some slot \<Rightarrow> Some slot
             | None \<Rightarrow> find (\<lambda>slot. dict_get slot ''date'' = PStr d) slots)"
    using find_target_slot_find by blast
  have b: "echo_result lib tm re cal request response
            = ([AutoBookingTriggered, ParseDateCalled],
               Inr \<lparr>resp_response = py_repr lib (PDict result),
                    resp_session_id = resp_session_id (initial_response request response),
                    resp_requires_action = True,
                    resp_action_details = Some fc\<rparr>)"
    if h: "sr_function_calls response = Some (fc # calls)"
      "fc_name fc = ''get_available_slots''"
      "sr_function_results response = Some results"
      "map_of results ''get_available_slots'' = Some (PDict result)"
      "is_booking_request (req_message request)"
      "dict_get result ''slots'' = PList (map PDict slots)" "slots \<noteq> []"
      "truthy (dict_get result ''event_type_id'')"
      "search_name re (req_message request) = Some name_group"
      "search_email re (req_message request) = Some email"
      "resolve_target re (req_message request)
           (parse_date_with_llm lib (req_message request)) = Inr (PStr d, Some t)"
      "\<forall>slot\<in>set slots. dict_get slot ''date'' \<noteq> PStr d"
  proof -
    from h(3,4) have ne: "results \<noteq> []" by auto
    note ab = auto_book_no_date [OF h(6,7,8,9,10,11,12), of tm cal]
    show ?thesis
      unfolding echo_result_def Let_def
      using h(1-5) ne
      by (simp add: ab py_str_def initial_response_def)
  qed
  have c: "echo_result lib tm re cal request response
            = ([AutoBookingTriggered, ParseDateCalled,
                BookEventCalled
                  \<lparr>br_event_type_id = dict_get result ''event_type_id'',
                   br_start_time = start_time, br_end_time = end_time,
                   br_name = PStr (strip name_group), br_email = PStr email,
                   br_title = PStr (''Appointment with '' @ strip name_group),
                   br_description = PStr (''Scheduled appointment for '' @ strip name_group),
                   br_timezone = PStr ''America/Los_Angeles'', br_language = PStr ''en''\<rparr>],
               (case cal_book_event cal
                       \<lparr>br_event_type_id = dict_get result ''event_type_id'',
                        br_start_time = start_time, br_end_time = end_time,
                        br_name = PStr (strip name_group), br_email = PStr email,
                        br_title = PStr (''Appointment with '' @ strip name_group),
                        br_description =
                          PStr (''Scheduled appointment for '' @ strip name_group),
                        br_timezone = PStr ''America/Los_Angeles'',
                        br_language = PStr ''en''\<rparr> of
                  Inl e \<Rightarrow> Inl e
                | Inr booking \<Rightarrow>
                    Inr \<lparr>resp_response =
                           ''Appointment booked successfully for '' @ strip name_group
                           @ '' on '' @ d @ '' at '' @ t @ ''. Booking ID: '' @ bk_uid booking,
                         resp_session_id =
                           resp_session_id (initial_response request response),
                         resp_requires_action = False,
                         resp_action_details = None\<rparr>))"
    if h: "sr_function_calls response = Some (fc # calls)"
      "fc_name fc = ''get_available_slots''"
      "sr_function_results response = Some results"
      "map_of results ''get_available_slots'' = Some (PDict result)"
      "is_booking_request (req_message request)"
      "dict_get result ''slots'' = PList (map PDict slots)" "slots \<noteq> []"
      "truthy (dict_get result ''event_type_id'')"
      "search_name re (req_message request) = Some name_group"
      "search_email re (req_message request) = Some email"
      "resolve_target re (req_message request)
           (parse_date_with_llm lib (req_message request)) = Inr (PStr d, Some t)"
      "d \<noteq> []" "t \<noteq> []"
      "\<forall>slot\<in>set slots. \<exists>s. dict_get slot ''start'' = PStr s"
      "(case find (\<lambda>slot. dict_get slot ''date'' = PStr d
                          \<and> (\<exists>s. dict_get slot ''start'' = PStr s \<and> sublist t s)) slots of
            Some slot \<Rightarrow> Some slot
          | None \<Rightarrow> find (\<lambda>slot. dict_get slot ''date'' = PStr d) slots) = Some chosen"
      "fromisoformat_val tm (dict_get chosen ''start'') = Inr start_time"
      "fromisoformat_val tm (dict_get chosen ''end'') = Inr end_time"
  proof -
    from h(3,4) have ne: "results \<noteq> []" by auto
    from find_target_slot_find [OF h(14), of d t] h(15)
    have sel: "find_target_slot (PStr d) t slots = Inr (Some chosen)" by simp
    note ab = auto_book_selected [OF h(6,7,8,9,10,11,12,13) sel h(16,17), of cal]
    show ?thesis
      unfolding echo_result_def Let_def
      using h(1-5) ne
      by (simp add: ab initial_response_def split: sum.splits)
  qed
  from a b c show ?thesis by blast
qed

theorem slot_resolution_witness:
  "map (\<lambda>slot. dict_get slot ''start'') sample_slot_dicts
     = [PStr ''2025-03-14T14:00:00-07:00'', PStr ''2025-03-14T14:30:00-07:00'',
        PStr ''2025-03-17T09:00:00-07:00'']
   \<and> map (\<lambda>slot. dict_get slot ''date'') sample_slot_dicts
        = [PStr ''2025-03-14'', PStr ''2025-03-14'', PStr ''2025-03-17'']
   \<and> find_target_slot (PStr ''2025-03-14'') ''14:30:00'' sample_slot_dicts
        = Inr (Some (sample_slot_dicts ! 1))
   \<and> find_target_slot (PStr ''2025-03-14'') ''16:00:00'' sample_slot_dicts
        = Inr (Some (sample_slot_dicts ! 0))
   \<and> find_target_slot (PStr ''2025-03-20'') ''10:00:00'' sample_slot_dicts = Inr None
   \<and> resolve_target sample_re later_message
        (parse_date_with_llm (sample_lib later_extraction) later_message)
        = Inr (PStr ''2025-03-20'', Some ''10:00:00'')
   \<and> echo_result (sample_lib later_extraction) sample_time sample_re
        (sample_calcom (Inr sample_booking))
        (sample_request later_message (Some ''session456'')) sample_response
        = ([AutoBookingTriggered, ParseDateCalled],
           Inr \<lparr>resp_response = sample_repr (PDict sample_slots_result),
                resp_session_id = ''session456'',
                resp_requires_action = True,
                resp_action_details = Some sample_call\<rparr>)
   \<and> resolve_target sample_re booking_message
        (parse_date_with_llm (sample_lib string_extraction) booking_message)
        = Inr (PStr ''2025-03-14'', Some ''14:30:00'')
   \<and> fromisoformat_val sample_time (dict_get (sample_slot_dicts ! 1) ''start'')
        = Inr (march 14 14 30)
   \<and> fromisoformat_val sample_time (dict_get (sample_slot_dicts ! 1) ''end'')
        = Inr (march 14 15 0)
   \<and> echo_result (sample_lib string_extraction) sample_time sample_re
        (sample_calcom (Inr sample_booking))
        (sample_request booking_message (Some ''session456'')) sample_response
        = ([AutoBookingTriggered, ParseDateCalled,
            BookEventCalled
              \<lparr>br_event_type_id = PInt 102,
               br_start_time = march 14 14 30, br_end_time = march 14 15 0,
               br_name = PStr ''Jane Doe'', br_email = PStr ''jane@example.com'',
               br_title = PStr ''Appointment with Jane Doe'',
               br_description = PStr ''Scheduled appointment for Jane Doe'',
               br_timezone = PStr ''America/Los_Angeles'', br_language = PStr ''en''\<rparr>],
           Inr \<lparr>resp_response =
                  ''Appointment booked successfully for Jane Doe on 2025-03-14 at 14:30:00. Booking ID: bk_7gXq2'',
                resp_session_id = ''session456'',
                resp_requires_action = False,
                resp_action_details = None\<rparr>)"
proof -
  let ?cal = "sample_calcom (Inr sample_booking)"
  let ?results = "[(''get_available_slots'', PDict sample_slots_result)]"
  have starts: "\<forall>slot\<in>set sample_slot_dicts. \<exists>s. dict_get slot ''start'' = PStr s"
    by (simp add: sample_slot_dicts_def dict_get_def dict_get_default_def)
  have starts': "map (\<lambda>slot. dict_get slot ''start'') sample_slot_dicts
     = [PStr ''2025-03-14T14:00:00-07:00'', PStr ''2025-03-14T14:30:00-07:00'',
        PStr ''2025-03-17T09:00:00-07:00'']"
    and dates: "map (\<lambda>slot. dict_get slot ''date'') sample_slot_dicts
        = [PStr ''2025-03-14'', PStr ''2025-03-14'', PStr ''2025-03-17'']"
    by (simp_all add: sample_slot_dicts_def dict_get_def dict_get_default_def)
  have f1: "find_target_slot (PStr ''2025-03-14'') ''14:30:00'' sample_slot_dicts
        = Inr (Some (sample_slot_dicts ! 1))"
    and f2: "find_target_slot (PStr ''2025-03-14'') ''16:00:00'' sample_slot_dicts
        = Inr (Some (sample_slot_dicts ! 0))"
    and f3: "find_target_slot (PStr ''2025-03-20'') ''10:00:00'' sample_slot_dicts = Inr None"
    by code_simp+
  have h1: "sr_function_calls sample_response = Some (sample_call # [])"
    and h2: "fc_name sample_call = ''get_available_slots''"
    and h3: "sr_function_results sample_response = Some ?results"
    and h4: "map_of ?results ''get_available_slots'' = Some (PDict sample_slots_result)"
    by (simp_all add: sample_response_def sample_call_def)
  have h6: "dict_get sample_slots_result ''slots'' = PList (map PDict sample_slot_dicts)"
    and h8: "truthy (dict_get sample_slots_result ''event_type_id'')"
    and etid: "dict_get sample_slots_result ''event_type_id'' = PInt 102"
    by (simp_all add: sample_slots_result_def dict_get_def dict_get_default_def)
  have h7: "sample_slot_dicts \<noteq> []"
    by (simp add: sample_slot_dicts_def)
  have sid: "resp_session_id (initial_response (sample_request m (Some ''session456''))
               sample_response) = ''session456''" for m
    by (simp add: initial_response_def sample_request_def)
  have rep: "py_repr (sample_lib x) = sample_repr" for x
    by (simp add: sample_lib_def)
  have msg: "req_message (sample_request m (Some ''session456'')) = m" for m
    by (simp add: sample_request_def)
  have l5: "is_booking_request later_message"
    by code_simp
  have l9: "search_name sample_re later_message = Some ''Jane Doe ''"
    and l10: "search_email sample_re later_message = Some ''jane@example.com''"
    by (simp_all add: sample_re_def)
  have l11: "resolve_target sample_re later_message
        (parse_date_with_llm (sample_lib later_extraction) later_message)
        = Inr (PStr ''2025-03-20'', Some ''10:00:00'')"
    by code_simp
  have l12: "\<forall>slot\<in>set sample_slot_dicts. dict_get slot ''date'' \<noteq> PStr ''2025-03-20''"
    by (simp add: sample_slot_dicts_def dict_get_def dict_get_default_def)
  from slot_resolution [where slots = sample_slot_dicts and d = "''2025-03-20''"
      and t = "''10:00:00''" and response = sample_response and fc = sample_call
      and calls = "[]" and results = ?results and result = sample_slots_result
      and request = "sample_request later_message (Some ''session456'')"
      and re = sample_re and name_group = "''Jane Doe ''" and email = "''jane@example.com''"
      and lib = "sample_lib later_extraction" and tm = sample_time and cal = ?cal]
    h1 h2 h3 h4 l5 h6 h7 h8 l9 l10 l11 l12
  have later: "echo_result (sample_lib later_extraction) sample_time sample_re ?cal
        (sample_request later_message (Some ''session456'')) sample_response
        = ([AutoBookingTriggered, ParseDateCalled],
           Inr \<lparr>resp_response = sample_repr (PDict sample_slots_result),
                resp_session_id = ''session456'',
                resp_requires_action = True,
                resp_action_details = Some sample_call\<rparr>)"
    unfolding msg sid rep by blast
  have b5: "is_booking_request booking_message"
    by code_simp
  have b9: "search_name sample_re booking_message = Some ''Jane Doe ''"
    and b10: "search_email sample_re booking_message = Some ''jane@example.com''"
    by (simp_all add: sample_re_def)
  have b11: "resolve_target sample_re booking_message
        (parse_date_with_llm (sample_lib string_extraction) booking_message)
        = Inr (PStr ''2025-03-14'', Some ''14:30:00'')"
    by code_simp
  have ne: "''2025-03-14'' \<noteq> []" "''14:30:00'' \<noteq> []"
    by simp_all
  note rule = slot_resolution [where slots = sample_slot_dicts and d = "''2025-03-14''"
      and t = "''14:30:00''" and response = sample_response and fc = sample_call
      and calls = "[]" and results = ?results and result = sample_slots_result
      and request = "sample_request booking_message (Some ''session456'')"
      and re = sample_re and name_group = "''Jane Doe ''" and email = "''jane@example.com''"
      and lib = "sample_lib string_extraction" and tm = sample_time and cal = ?cal
      and chosen = "sample_slot_dicts ! 1" and start_time = "march 14 14 30"
      and end_time = "march 14 15 0"]
  from rule starts f1
  have chosen: "(case find (\<lambda>slot. dict_get slot ''date'' = PStr ''2025-03-14''
                          \<and> (\<exists>s. dict_get slot ''start'' = PStr s \<and> sublist ''14:30:00'' s))
                   sample_slot_dicts of
            Some slot \<Rightarrow> Some slot
          | None \<Rightarrow> find (\<lambda>slot. dict_get slot ''date'' = PStr ''2025-03-14'') sample_slot_dicts)
          = Some (sample_slot_dicts ! 1)"
    by simp
  have st: "fromisoformat_val sample_time (dict_get (sample_slot_dicts ! 1) ''start'')
        = Inr (march 14 14 30)"
    and en: "fromisoformat_val sample_time (dict_get (sample_slot_dicts ! 1) ''end'')
        = Inr (march 14 15 0)"
    by (simp_all add: sample_slot_dicts_def dict_get_def dict_get_default_def
          fromisoformat_val_def sample_time_def)
  have name: "strip ''Jane Doe '' = ''Jane Doe''"
    by code_simp
  have booked: "cal_book_event ?cal request = Inr sample_booking" for request
    by (simp add: sample_calcom_def)
  have uid: "bk_uid sample_booking = ''bk_7gXq2''"
    by (simp add: sample_booking_def)
  from rule h1 h2 h3 h4 b5 h6 h7 h8 b9 b10 b11 ne starts chosen st en
  have "echo_result (sample_lib string_extraction) sample_time sample_re ?cal
        (sample_request booking_message (Some ''session456'')) sample_response
        = ([AutoBookingTriggered, ParseDateCalled,
            BookEventCalled
              \<lparr>br_event_type_id = dict_get sample_slots_result ''event_type_id'',
               br_start_time = march 14 14 30, br_end_time = march 14 15 0,
               br_name = PStr (strip ''Jane Doe ''), br_email = PStr ''jane@example.com'',
               br_title = PStr (''Appointment with '' @ strip ''Jane Doe ''),
               br_description = PStr (''Scheduled appointment for '' @ strip ''Jane Doe ''),
               br_timezone = PStr ''America/Los_Angeles'', br_language = PStr ''en''\<rparr>],
           (case cal_book_event ?cal
                   \<lparr>br_event_type_id = dict_get sample_slots_result ''event_type_id'',
                    br_start_time = march 14 14 30, br_end_time = march 14 15 0,
                    br_name = PStr (strip ''Jane Doe ''), br_email = PStr ''jane@example.com'',
                    br_title = PStr (''Appointment with '' @ strip ''Jane Doe ''),
                    br_description =
                      PStr (''Scheduled appointment for '' @ strip ''Jane Doe ''),
                    br_timezone = PStr ''America/Los_Angeles'',
                    br_language = PStr ''en''\<rparr> of
              Inl e \<Rightarrow> Inl e
            | Inr booking \<Rightarrow>
                Inr \<lparr>resp_response =
                       ''Appointment booked successfully for '' @ strip ''Jane Doe ''
                       @ '' on '' @ ''2025-03-14'' @ '' at '' @ ''14:30:00''
                       @ ''. Booking ID: '' @ bk_uid booking,
                     resp_session_id =
                       resp_session_id (initial_response
                          (sample_request booking_message (Some ''session456''))
                          sample_response),
                     resp_requires_action = False,
                     resp_action_details = None\<rparr>))"
    unfolding msg by blast
  then have booking: "echo_result (sample_lib string_extraction) sample_time sample_re ?cal
        (sample_request booking_message (Some ''session456'')) sample_response
        = ([AutoBookingTriggered, ParseDateCalled,
            BookEventCalled
              \<lparr>br_event_type_id = PInt 102,
               br_start_time = march 14 14 30, br_end_time = march 14 15 0,
               br_name = PStr ''Jane Doe'', br_email = PStr ''jane@example.com'',
               br_title = PStr ''Appointment with Jane Doe'',
               br_description = PStr ''Scheduled appointment for Jane Doe'',
               br_timezone = PStr ''America/Los_Angeles'', br_language = PStr ''en''\<rparr>],
           Inr \<lparr>resp_response =
                  ''Appointment booked successfully for Jane Doe on 2025-03-14 at 14:30:00. Booking ID: bk_7gXq2'',
                resp_session_id = ''session456'',
                resp_requires_action = False,
                resp_action_details = None\<rparr>)"
    by (simp add: etid name booked uid sid)
  from starts' dates f1 f2 f3 l11 later b11 st en booking show ?thesis by blast
qed

subsection \<open>Exceptions of the auto-booking\<close>








subsection \<open>Session identifier of the response\<close>

text \<open>
  Claim C5.  A request without a session identifier, sent to a new chat service: the turns are
  recorded under the generated identifier, no session exists under \<^verbatim>\<open>new_session\<close>, and the
  response carries \<^verbatim>\<open>new_session\<close>.
\<close>

theorem response_session_id_placeholder:
  "(case sample_run string_extraction (Inr sample_booking) question_message None of
      (chat_service, events, outcome) \<Rightarrow>
        map_sum id resp_session_id outcome = Inr ''new_session''
        \<and> sessions chat_service ''new_session'' = None
        \<and> map msg_role (session_history chat_service ''9f1c2b7e-3d4a-4e5f-8a6b-7c8d9e0f1a2b'')
            = [SYSTEM, USER, ASSISTANT, FUNCTION])"
  by code_simp

end
